theory Spec2Isabelle
  imports Main "HOL-Library.Product_Lexorder" "HOL-Library.Multiset"
begin

section \<open>Exceptions\<close>

text \<open>
  The Python exceptions that the two modules can see. \<open>ValueError\<close> and \<open>KeyError\<close>
  carry the string the interpreter reports (the key that failed to parse, the key that is
  missing from the dictionary, or the message of \<open>pd.concat\<close>); \<open>AttributeError\<close> carries
  the missing attribute; \<open>Raised e\<close> is whatever an external collaborator (the file query
  API, an ingestion engine) raised, propagated unchanged.
\<close>

datatype 'e exn =
    ValueError string
  | KeyError string
  | AttributeError string
  | Raised 'e

section \<open>The part of Python's \<open>datetime\<close> that the pipeline uses\<close>

record datetime =
  year :: int
  month :: int
  day :: int
  hour :: int
  minute :: int
  second :: int
  microsecond :: int

definition is_leap :: "int \<Rightarrow> bool" where
  "is_leap y = (y mod 4 = 0 \<and> (y mod 100 \<noteq> 0 \<or> y mod 400 = 0))"

definition DAYS_IN_MONTH :: "int list" where
  "DAYS_IN_MONTH = [-1, 31, 28, 31, 30, 31, 30, 31, 31, 30, 31, 30, 31]"

definition DAYS_BEFORE_MONTH :: "int list" where
  "DAYS_BEFORE_MONTH = [-1, 0, 31, 59, 90, 120, 151, 181, 212, 243, 273, 304, 334]"

definition days_before_year :: "int \<Rightarrow> int" where
  "days_before_year y = (y - 1) * 365 + (y - 1) div 4 - (y - 1) div 100 + (y - 1) div 400"

definition days_in_month :: "int \<Rightarrow> int \<Rightarrow> int" where
  "days_in_month y m = (if m = 2 \<and> is_leap y then 29 else DAYS_IN_MONTH ! nat m)"

definition days_before_month :: "int \<Rightarrow> int \<Rightarrow> int" where
  "days_before_month y m = DAYS_BEFORE_MONTH ! nat m + (if m > 2 \<and> is_leap y then 1 else 0)"

definition ymd2ord :: "int \<Rightarrow> int \<Rightarrow> int \<Rightarrow> int" where
  "ymd2ord y m d = days_before_year y + days_before_month y m + d"

definition toordinal :: "datetime \<Rightarrow> int" where
  "toordinal t = ymd2ord (year t) (month t) (day t)"

text \<open>
  The checks of the \<open>datetime\<close> constructor on the fields that \<open>strptime\<close> fills in
  (\<open>MINYEAR = 1\<close>, \<open>MAXYEAR = 9999\<close>); a violation raises \<open>ValueError\<close>.
\<close>

definition check_date_fields :: "int \<Rightarrow> int \<Rightarrow> int \<Rightarrow> bool" where
  "check_date_fields y m d =
     (1 \<le> y \<and> y \<le> 9999 \<and> 1 \<le> m \<and> m \<le> 12 \<and> 1 \<le> d \<and> d \<le> days_in_month y m)"

definition check_time_fields :: "int \<Rightarrow> int \<Rightarrow> int \<Rightarrow> int \<Rightarrow> bool" where
  "check_time_fields h mi s us =
     (0 \<le> h \<and> h \<le> 23 \<and> 0 \<le> mi \<and> mi \<le> 59 \<and> 0 \<le> s \<and> s \<le> 59 \<and> 0 \<le> us \<and> us \<le> 999999)"

text \<open>
  \<open>timedelta(days, seconds, microseconds).days\<close> after normalisation: microseconds carry
  into seconds and seconds into days, both by floor division.
\<close>

definition timedelta_days :: "int \<Rightarrow> int \<Rightarrow> int \<Rightarrow> int" where
  "timedelta_days d s us = d + (s + us div 1000000) div 86400"

text \<open>\<open>(a - b).days\<close> for two naive datetimes.\<close>

definition sub_days :: "datetime \<Rightarrow> datetime \<Rightarrow> int" where
  "sub_days a b =
     (let days1 = toordinal a;
          days2 = toordinal b;
          secs1 = second a + minute a * 60 + hour a * 3600;
          secs2 = second b + minute b * 60 + hour b * 3600
      in timedelta_days (days1 - days2) (secs1 - secs2) (microsecond a - microsecond b))"

text \<open>
  Naive datetimes compare as the tuples of their fields, lexicographically; this is the
  key under which \<open>list.sort()\<close> orders them.
\<close>

definition dt_key :: "datetime \<Rightarrow> int \<times> int \<times> int \<times> int \<times> int \<times> int \<times> int" where
  "dt_key t = (year t, month t, day t, hour t, minute t, second t, microsecond t)"

section \<open>\<open>datetime.strptime(key, "%Y%m%d%H")\<close>\<close>

text \<open>
  The library turns the format into a regular expression with one group per directive,
  \<^verbatim>\<open>(?P<Y>\d\d\d\d)(?P<m>1[0-2]|0[1-9]|[1-9])(?P<d>3[0-1]|[1-2]\d|0[1-9]|[1-9]| [1-9])(?P<H>2[0-3]|[0-1]\d|\d)\<close>,
  matches it at the start of the key, and then requires that the match covers the whole
  key. A regular expression without repetition is modelled by the list of its matches
  (matched text and rest) in the order the backtracking matcher tries them; the match
  that \<open>re.match\<close> reports is the first of the list. A character of a key is a code
  point below 256; among these the class of decimal digits that the pattern and \<open>int\<close>
  accept is the ten ASCII digits. Keys with other characters are outside the model.
\<close>

type_synonym re = "string \<Rightarrow> (string \<times> string) list"

definition rng :: "char \<Rightarrow> char \<Rightarrow> re" where
  "rng lo hi s =
     (case s of [] \<Rightarrow> []
      | c # r \<Rightarrow> if (of_char lo :: nat) \<le> of_char c \<and> (of_char c :: nat) \<le> of_char hi
                 then [([c], r)] else [])"

definition sq :: "re \<Rightarrow> re \<Rightarrow> re" where
  "sq p q s = concat (map (\<lambda>(a, r). map (\<lambda>(b, r'). (a @ b, r')) (q r)) (p s))"

definition alt :: "re \<Rightarrow> re \<Rightarrow> re" where
  "alt p q s = p s @ q s"

definition dig :: re where
  "dig = rng (CHR ''0'') (CHR ''9'')"

definition re_Y :: re where
  "re_Y = sq dig (sq dig (sq dig dig))"

definition re_m :: re where
  "re_m = alt (sq (rng (CHR ''1'') (CHR ''1'')) (rng (CHR ''0'') (CHR ''2'')))
         (alt (sq (rng (CHR ''0'') (CHR ''0'')) (rng (CHR ''1'') (CHR ''9'')))
              (rng (CHR ''1'') (CHR ''9'')))"

definition re_d :: re where
  "re_d = alt (sq (rng (CHR ''3'') (CHR ''3'')) (rng (CHR ''0'') (CHR ''1'')))
         (alt (sq (rng (CHR ''1'') (CHR ''2'')) dig)
         (alt (sq (rng (CHR ''0'') (CHR ''0'')) (rng (CHR ''1'') (CHR ''9'')))
         (alt (rng (CHR ''1'') (CHR ''9''))
              (sq (rng (CHR '' '') (CHR '' '')) (rng (CHR ''1'') (CHR ''9''))))))"

definition re_H :: re where
  "re_H = alt (sq (rng (CHR ''2'') (CHR ''2'')) (rng (CHR ''0'') (CHR ''3'')))
         (alt (sq (rng (CHR ''0'') (CHR ''1'')) dig)
              dig)"

text \<open>All matches of the four groups in sequence, in backtracking order.\<close>

definition format_regex :: "string \<Rightarrow> (string \<times> string \<times> string \<times> string \<times> string) list" where
  "format_regex s =
     concat (map (\<lambda>(y, r1).
       concat (map (\<lambda>(m, r2).
         concat (map (\<lambda>(d, r3).
           map (\<lambda>(h, r4). (y, m, d, h, r4)) (re_H r3)) (re_d r2))) (re_m r1))) (re_Y s))"

text \<open>\<open>int(text)\<close> on a group: decimal digits, surrounding blanks ignored.\<close>

definition py_int :: "string \<Rightarrow> int" where
  "py_int s = foldl (\<lambda>n c. 10 * n + (int (of_char c) - 48)) 0 (filter (\<lambda>c. c \<noteq> CHR '' '') s)"

definition strptime :: "string \<Rightarrow> 'e exn + datetime" where
  "strptime data_string =
     (case format_regex data_string of
        [] \<Rightarrow> Inl (ValueError data_string)
      | (y, m, d, h, rest) # _ \<Rightarrow>
          if rest \<noteq> [] then Inl (ValueError data_string)
          else if \<not> check_date_fields (py_int y) (py_int m) (py_int d) then Inl (ValueError data_string)
          else if \<not> check_time_fields (py_int h) 0 0 0 then Inl (ValueError data_string)
          else Inr \<lparr>year = py_int y, month = py_int m, day = py_int d, hour = py_int h,
                    minute = 0, second = 0, microsecond = 0\<rparr>)"

section \<open>\<open>datetime.strftime("%Y%m%d%H")\<close>\<close>

text \<open>
  Each field is written in decimal, zero-padded to the width of its directive: four
  digits for \<open>%Y\<close>, as the library documents it. (The directive is handed to the C
  library of the platform; one that prints a year below 1000 without padding is not
  modelled.)
\<close>

definition digit_char :: "int \<Rightarrow> char" where
  "digit_char k = char_of (48 + nat k)"

definition pad2 :: "int \<Rightarrow> string" where
  "pad2 n = [digit_char (n div 10 mod 10), digit_char (n mod 10)]"

definition pad4 :: "int \<Rightarrow> string" where
  "pad4 n = [digit_char (n div 1000 mod 10), digit_char (n div 100 mod 10),
             digit_char (n div 10 mod 10), digit_char (n mod 10)]"

definition strftime :: "datetime \<Rightarrow> string" where
  "strftime t = pad4 (year t) @ pad2 (month t) @ pad2 (day t) @ pad2 (hour t)"

section \<open>Snapshot keys\<close>

text \<open>
  The keys that the catalog is specified to hold: a run timestamp written as
  \<open>YYYYMMDDHH\<close>, that is, ten decimal digits with every field zero-padded. Whether the
  digits name a calendar date is left to \<open>strptime\<close>.
\<close>

definition is_digit :: "char \<Rightarrow> bool" where
  "is_digit c = ((48 :: nat) \<le> of_char c \<and> (of_char c :: nat) \<le> 57)"

definition snapshot_key :: "string \<Rightarrow> bool" where
  "snapshot_key k = (length k = 10 \<and> list_all is_digit k)"

section \<open>The forecast pipeline (\<open>pipeline_api.py\<close>)\<close>

text \<open>
  What the method reaches outside itself is gathered in a record: the file query API
  (called with the root directory the pipeline object was built with and the client
  name; it returns the dictionary from date key to file path, or raises), the system
  clock read by \<open>datetime.today()\<close>, and the ingestion engine (from a path to the rows of
  its \<open>main_df\<close>, or an exception). A Python dictionary is an association list in
  iteration order; its keys are distinct. A data frame is the list of its rows. The two
  \<open>print\<close> calls are not modelled.
\<close>

record ('e, 'r) world =
  get_seven_day_forcast_files :: "string \<Rightarrow> string \<Rightarrow> 'e + (string \<times> string) list"
  today :: datetime
  dfs0_ingestion_engine :: "string \<Rightarrow> 'e + 'r list"

record dfs0_pipeline =
  client_name :: string
  root_dir :: string

text \<open>Lines 82-83: the keys are parsed in iteration order; the first failure is raised.\<close>

fun date_lst :: "string list \<Rightarrow> 'e exn + datetime list" where
  "date_lst [] = Inr []"
| "date_lst (date_key # ks) =
     (case strptime date_key of
        Inl e \<Rightarrow> Inl e
      | Inr d \<Rightarrow> (case date_lst ks of Inl e \<Rightarrow> Inl e | Inr ds \<Rightarrow> Inr (d # ds)))"

text \<open>Lines 90-91: the condition of the filter.\<close>

definition in_window :: "datetime \<Rightarrow> datetime \<Rightarrow> bool" where
  "in_window current_date date =
     (sub_days date current_date \<le> 7 \<and> sub_days date current_date > 0)"

text \<open>Lines 82-98: parse, filter, sort, and write the dates back as strings.\<close>

definition forecast_date_lst :: "(string \<times> string) list \<Rightarrow> datetime \<Rightarrow> 'e exn + string list" where
  "forecast_date_lst forecast_dict current_date =
     (case date_lst (map fst forecast_dict) of
        Inl e \<Rightarrow> Inl e
      | Inr ds \<Rightarrow> Inr (map strftime (sort_key dt_key (filter (in_window current_date) ds))))"

text \<open>
  Lines 103-108: for each selected string, in order, the dictionary lookup (a missing key
  raises \<open>KeyError\<close>) and then the ingestion of the path; the first exception is raised.
\<close>

fun forecast_df_lst ::
  "(string \<Rightarrow> 'e + 'r list) \<Rightarrow> (string \<times> string) list \<Rightarrow> string list \<Rightarrow> 'e exn + 'r list list" where
  "forecast_df_lst engine forecast_dict [] = Inr []"
| "forecast_df_lst engine forecast_dict (date_key # ks) =
     (case map_of forecast_dict date_key of
        None \<Rightarrow> Inl (KeyError date_key)
      | Some path \<Rightarrow>
          (case engine path of
             Inl e \<Rightarrow> Inl (Raised e)
           | Inr main_df \<Rightarrow>
               (case forecast_df_lst engine forecast_dict ks of
                  Inl e \<Rightarrow> Inl e
                | Inr dfs \<Rightarrow> Inr (main_df # dfs))))"

text \<open>
  \<open>pd.concat\<close> on a list of frames: an empty list raises \<open>ValueError\<close>; otherwise the
  result holds the rows of the frames in the order of the list. The frames of one
  pipeline are taken to be proper frames over the same columns, as one ingestion engine
  produces them; a \<open>main_df\<close> that is \<open>None\<close>, or frames whose column indexes clash,
  for which the library drops the frame or raises, are outside the model.
\<close>

definition pd_concat :: "'r list list \<Rightarrow> 'e exn + 'r list" where
  "pd_concat objs =
     (if objs = [] then Inl (ValueError ''No objects to concatenate'') else Inr (concat objs))"

text \<open>
  The method. The result is \<open>Inl\<close> for an exception that leaves the method,
  \<open>Inr (Some df)\<close> for a returned frame and \<open>Inr None\<close> when the method falls off its end
  (after the handler of \<open>except ValueError\<close>, which only prints).
\<close>

definition build_seven_day_forecast_data ::
  "dfs0_pipeline \<Rightarrow> ('e, 'r) world \<Rightarrow> 'e exn + 'r list option" where
  "build_seven_day_forecast_data self w =
     (case get_seven_day_forcast_files w (root_dir self) (client_name self) of
        Inl e \<Rightarrow> Inl (Raised e)
      | Inr forecast_dict \<Rightarrow>
          (let current_date = today w in
           case forecast_date_lst forecast_dict current_date of
             Inl e \<Rightarrow> Inl e
           | Inr keys \<Rightarrow>
               (case forecast_df_lst (dfs0_ingestion_engine w) forecast_dict keys of
                  Inl e \<Rightarrow> Inl e
                | Inr dfs \<Rightarrow>
                    (case pd_concat dfs of
                       Inr forecast_df \<Rightarrow> Inr (Some forecast_df)
                     | Inl (ValueError msg) \<Rightarrow> Inr None
                     | Inl e \<Rightarrow> Inl e))))"

section \<open>The polar plot of the dashboard (\<open>dfs_visualization_api.py\<close>)\<close>

text \<open>
  A data frame is here the list of its columns in order, each a name and its values; the
  index is not modelled. \<open>get_node_data\<close> is inherited from the ingestion engine and is a
  parameter. \<open>frame[column]\<close> and \<open>dict[key]\<close> raise \<open>KeyError\<close> on a missing key.
  The module \<open>math\<close> has the function \<open>degrees\<close> and no attribute
  \<open>degree\<close>, so evaluating \<open>math.degree(x)\<close> raises \<open>AttributeError\<close> whatever \<open>x\<close> is. The
  constant arguments of \<open>go.Barpolar\<close> (width, opacity, colour scale) are left out of the
  record of the plot. Line 2 of the module, \<open>from * import ...\<close>, is not valid Python, so
  the module as committed cannot be imported; the method is modelled as it is written,
  that is, as it runs once that line is repaired.
\<close>

type_synonym 'v frame = "(string \<times> 'v list) list"

record plot_format =
  df_column :: string
  title :: string
  units :: string

definition timeseries_format :: "(string \<times> plot_format) list" where
  "timeseries_format =
     [(''Salinity'', \<lparr>df_column = ''Salinity'', title = ''Water Salinity'', units = ''PSU''\<rparr>),
      (''Temperature'', \<lparr>df_column = ''Temperature'', title = ''Water Temperature'', units = ''Degrees Celsius''\<rparr>),
      (''Density'', \<lparr>df_column = ''Density'', title = ''Water Density'', units = ''kg/m^3''\<rparr>),
      (''Current direction'', \<lparr>df_column = ''Current direction'', title = ''Current Direction'', units = ''Radians''\<rparr>),
      (''Current speed'', \<lparr>df_column = ''Current speed'', title = ''Current Speed'', units = ''m/s''\<rparr>)]"

definition getitem :: "(string \<times> 'a) list \<Rightarrow> string \<Rightarrow> 'e exn + 'a" where
  "getitem d k = (case map_of d k of None \<Rightarrow> Inl (KeyError k) | Some v \<Rightarrow> Inr v)"

definition math_degree :: "'a \<Rightarrow> 'e exn + 'a" where
  "math_degree x = Inl (AttributeError ''degree'')"

text \<open>
  \<open>DataFrame.apply(func)\<close>, column by column. On a frame with no column or no row the
  library takes its path for empty results: it calls \<open>func\<close> once on an empty column
  inside a \<open>try\<close> of its own, ignores any exception, and returns a copy of the frame.
  Otherwise \<open>func\<close> is called on each column in turn, and the first exception is raised.
\<close>

definition df_empty :: "'v frame \<Rightarrow> bool" where
  "df_empty df = (case df of [] \<Rightarrow> True | (name, col) # cols \<Rightarrow> col = [])"

fun apply_standard :: "('v list \<Rightarrow> 'e exn + 'v list) \<Rightarrow> 'v frame \<Rightarrow> 'e exn + 'v frame" where
  "apply_standard func [] = Inr []"
| "apply_standard func ((name, col) # cols) =
     (case func col of
        Inl e \<Rightarrow> Inl e
      | Inr col' \<Rightarrow>
          (case apply_standard func cols of Inl e \<Rightarrow> Inl e | Inr cols' \<Rightarrow> Inr ((name, col') # cols')))"

definition df_apply :: "('v list \<Rightarrow> 'e exn + 'v list) \<Rightarrow> 'v frame \<Rightarrow> 'e exn + 'v frame" where
  "df_apply func df = (if df_empty df then Inr df else apply_standard func df)"

text \<open>
  Line 389, the body of the \<open>try\<close> statement: \<open>theta.apply(lambda x : math.degree(x))\<close>.
\<close>

definition theta_apply :: "'v frame \<Rightarrow> 'e exn + 'v frame" where
  "theta_apply theta = df_apply (\<lambda>x. math_degree x) theta"

record 'v barpolar =
  barpolar_r :: "'v list"
  barpolar_theta :: "'v list"
  marker_color :: "'v list"
  colorbar_title :: string

text \<open>
  The method. The handler of the bare \<open>except\<close> is \<open>pass\<close>: when the conversion raises,
  theta stays what \<open>get_node_data\<close> returned. The arguments of \<open>go.Barpolar\<close> are
  evaluated in the order they are written.
\<close>

definition create_polar_plot ::
  "('c \<Rightarrow> 'c \<Rightarrow> 'c \<Rightarrow> string \<Rightarrow> 'e + 'v frame) \<Rightarrow> 'c \<Rightarrow> 'c \<Rightarrow> 'c \<Rightarrow> string \<Rightarrow> string \<Rightarrow> 'e exn + 'v barpolar" where
  "create_polar_plot get_node_data long lat depth r_column theta_column =
     (case get_node_data long lat depth r_column of
        Inl e \<Rightarrow> Inl (Raised e)
      | Inr r \<Rightarrow>
     (case get_node_data long lat depth theta_column of
        Inl e \<Rightarrow> Inl (Raised e)
      | Inr theta0 \<Rightarrow>
     (let theta = (case (theta_apply theta0 :: 'e exn + 'v frame) of Inr converted \<Rightarrow> converted | Inl e \<Rightarrow> theta0) in
      case getitem timeseries_format r_column of
        Inl e \<Rightarrow> Inl e
      | Inr r_format \<Rightarrow>
     (case getitem r (df_column r_format) of
        Inl e \<Rightarrow> Inl e
      | Inr r_values \<Rightarrow>
     (case getitem timeseries_format theta_column of
        Inl e \<Rightarrow> Inl e
      | Inr theta_format \<Rightarrow>
     (case getitem theta (df_column theta_format) of
        Inl e \<Rightarrow> Inl e
      | Inr theta_values \<Rightarrow>
          Inr \<lparr>barpolar_r = r_values, barpolar_theta = theta_values, marker_color = r_values,
               colorbar_title = units r_format\<rparr>))))))"

section \<open>Concrete inputs\<close>

text \<open>
  The catalogs, clock readings and ingestion engines at which the theorems below are
  evaluated. The first catalog and the reference instant 2024-03-01T00:00 are those of
  the scenario of the specification.
\<close>

definition reference_20240301 :: datetime where
  "reference_20240301 = \<lparr>year = 2024, month = 3, day = 1, hour = 0, minute = 0, second = 0, microsecond = 0\<rparr>"

definition reference_20240401 :: datetime where
  "reference_20240401 = \<lparr>year = 2024, month = 4, day = 1, hour = 0, minute = 0, second = 0, microsecond = 0\<rparr>"

definition scenario_catalog :: "(string \<times> string) list" where
  "scenario_catalog = [(''2024030106'', ''A''), (''2024030206'', ''B''), (''2024030900'', ''C''), (''2024022900'', ''D'')]"

definition unsorted_catalog :: "(string \<times> string) list" where
  "unsorted_catalog = [(''2024030506'', ''F''), (''2024030206'', ''B'')]"

definition past_catalog :: "(string \<times> string) list" where
  "past_catalog = [(''2024030900'', ''C''), (''2024022900'', ''D'')]"

definition malformed_catalog :: "(string \<times> string) list" where
  "malformed_catalog = [(''2024030206'', ''B''), (''notadate'', ''X'')]"

definition lenient_catalog :: "(string \<times> string) list" where
  "lenient_catalog = [(''2024030206'', ''B''), (''2024318'', ''X'')]"

definition boundary_catalog :: "(string \<times> string) list" where
  "boundary_catalog = [(''2024030800'', ''E''), (''2024030900'', ''C''), (''2024030100'', ''Z'')]"

definition three_run_catalog :: "(string \<times> string) list" where
  "three_run_catalog = [(''2024030506'', ''late''), (''2024030306'', ''middle''), (''2024030206'', ''early'')]"

definition scenario_pipeline :: dfs0_pipeline where
  "scenario_pipeline = \<lparr>client_name = ''TT_HD_BPTT_Cypre'', root_dir = ''WaterForecastTT''\<rparr>"

definition scenario_world ::
  "(string \<times> string) list \<Rightarrow> datetime \<Rightarrow> (string \<Rightarrow> string + string list) \<Rightarrow> (string, string) world" where
  "scenario_world forecast_dict now engine =
     \<lparr>get_seven_day_forcast_files = (\<lambda>root client. Inr forecast_dict), today = now,
      dfs0_ingestion_engine = engine\<rparr>"

definition one_row_engine :: "string \<Rightarrow> string + string list" where
  "one_row_engine path = Inr [path]"

definition unreadable_engine :: "string \<Rightarrow> string + string list" where
  "unreadable_engine path = Inl ''unreadable''"

definition catalog_only_engine :: "string \<Rightarrow> string + string list" where
  "catalog_only_engine path = (if path \<in> set [''A'', ''B'', ''C'', ''D''] then Inr [path] else Inl ''unreadable'')"

definition partly_unreadable_engine :: "string \<Rightarrow> string + string list" where
  "partly_unreadable_engine path =
     (if path = ''early'' then Inr [''row of early'']
      else if path = ''middle'' then Inl ''middle is unreadable''
      else Inl ''late is unreadable'')"

definition node_data :: "int \<Rightarrow> int \<Rightarrow> int \<Rightarrow> string \<Rightarrow> string + int frame" where
  "node_data long lat depth column =
     (if column = ''Current speed'' then Inr [(''Current speed'', [2, 3])]
      else if column = ''Current direction'' then Inr [(''Current direction'', [1, 4])]
      else Inl ''no such item'')"

section \<open>Formatting a parsed date and parsing it again\<close>

text \<open>
  Every date that \<open>strptime\<close> returns is written by \<open>strftime\<close> as ten digits, and these
  parse back to the same date: on each group the first alternative of the regular
  expression that matches takes both digits.
\<close>

lemma of_char_digit_char: "0 \<le> k \<Longrightarrow> k \<le> 9 \<Longrightarrow> (of_char (digit_char k) :: nat) = 48 + nat k"
  by (simp add: digit_char_def)

lemma rng_Cons: "rng lo hi (c # r) =
   (if (of_char lo :: nat) \<le> of_char c \<and> (of_char c :: nat) \<le> of_char hi then [([c], r)] else [])"
  by (simp add: rng_def)

lemma rng_Nil: "rng lo hi [] = []"
  by (simp add: rng_def)

lemma dig_digit: "0 \<le> k \<Longrightarrow> k \<le> 9 \<Longrightarrow> dig (digit_char k # r) = [([digit_char k], r)]"
  by (simp add: dig_def rng_Cons of_char_digit_char)

lemma re_Y_pad4: "0 \<le> y \<Longrightarrow> re_Y (pad4 y @ r) = [(pad4 y, r)]"
  by (simp add: re_Y_def sq_def pad4_def dig_digit)

lemma re_m_pad2:
  assumes "1 \<le> m" "m \<le> 12"
  shows "\<exists>t. re_m (pad2 m @ r) = (pad2 m, r) # t"
proof -
  have "m = 1 \<or> m = 2 \<or> m = 3 \<or> m = 4 \<or> m = 5 \<or> m = 6 \<or> m = 7 \<or> m = 8 \<or> m = 9 \<or> m = 10 \<or> m = 11 \<or> m = 12"
    using assms by arith
  then show ?thesis
    by (elim disjE) (simp_all add: re_m_def alt_def sq_def pad2_def rng_Cons rng_Nil of_char_digit_char)
qed

lemma re_d_pad2:
  assumes "1 \<le> d" "d \<le> 31"
  shows "\<exists>t. re_d (pad2 d @ r) = (pad2 d, r) # t"
proof -
  have "d = 1 \<or> d = 2 \<or> d = 3 \<or> d = 4 \<or> d = 5 \<or> d = 6 \<or> d = 7 \<or> d = 8 \<or> d = 9 \<or> d = 10 \<or> d = 11 \<or> d = 12 \<or> d = 13 \<or> d = 14 \<or> d = 15 \<or> d = 16 \<or> d = 17 \<or> d = 18 \<or> d = 19 \<or> d = 20 \<or> d = 21 \<or> d = 22 \<or> d = 23 \<or> d = 24 \<or> d = 25 \<or> d = 26 \<or> d = 27 \<or> d = 28 \<or> d = 29 \<or> d = 30 \<or> d = 31"
    using assms by arith
  then show ?thesis
    by (elim disjE) (simp_all add: re_d_def dig_def alt_def sq_def pad2_def rng_Cons rng_Nil of_char_digit_char)
qed

lemma re_H_pad2:
  assumes "0 \<le> h" "h \<le> 23"
  shows "\<exists>t. re_H (pad2 h @ r) = (pad2 h, r) # t"
proof -
  have "h = 0 \<or> h = 1 \<or> h = 2 \<or> h = 3 \<or> h = 4 \<or> h = 5 \<or> h = 6 \<or> h = 7 \<or> h = 8 \<or> h = 9 \<or> h = 10 \<or> h = 11 \<or> h = 12 \<or> h = 13 \<or> h = 14 \<or> h = 15 \<or> h = 16 \<or> h = 17 \<or> h = 18 \<or> h = 19 \<or> h = 20 \<or> h = 21 \<or> h = 22 \<or> h = 23"
    using assms by arith
  then show ?thesis
    by (elim disjE) (simp_all add: re_H_def dig_def alt_def sq_def pad2_def rng_Cons rng_Nil of_char_digit_char)
qed

lemma digit_char_not_blank: "0 \<le> k \<Longrightarrow> k \<le> 9 \<Longrightarrow> digit_char k \<noteq> CHR '' ''"
proof
  assume a: "0 \<le> k" "k \<le> 9" and "digit_char k = CHR '' ''"
  then have "(of_char (digit_char k) :: nat) = of_char (CHR '' '')" by simp
  with a show False by (simp add: of_char_digit_char)
qed

lemma digit_value: "0 \<le> k \<Longrightarrow> k \<le> 9 \<Longrightarrow> int (of_char (digit_char k)) - 48 = k"
  by (simp add: of_char_digit_char)

lemma mod10_bounds: "0 \<le> (x::int) mod 10" "(x::int) mod 10 \<le> 9"
proof -
  show "0 \<le> x mod 10" by simp
  have "x mod 10 < 10" by simp
  then show "x mod 10 \<le> 9" by linarith
qed

lemma py_int_two:
  assumes "0 \<le> a" "a \<le> 9" "0 \<le> b" "b \<le> 9"
  shows "py_int [digit_char a, digit_char b] = 10 * a + b"
  using assms by (simp add: py_int_def digit_char_not_blank digit_value)

lemma py_int_four:
  assumes "0 \<le> a" "a \<le> 9" "0 \<le> b" "b \<le> 9" "0 \<le> c" "c \<le> 9" "0 \<le> d" "d \<le> 9"
  shows "py_int [digit_char a, digit_char b, digit_char c, digit_char d] = 1000 * a + 100 * b + 10 * c + d"
  using assms by (simp add: py_int_def digit_char_not_blank digit_value)

lemma py_int_pad2: assumes "0 \<le> n" "n \<le> 99" shows "py_int (pad2 n) = n"
proof -
  have "py_int (pad2 n) = 10 * (n div 10 mod 10) + n mod 10"
    unfolding pad2_def by (rule py_int_two) (rule mod10_bounds)+
  moreover have "n div 10 mod 10 = n div 10"
    using assms by (intro mod_pos_pos_trivial) auto
  moreover have "10 * (n div 10) + n mod 10 = n" by simp
  ultimately show ?thesis by simp
qed

lemma py_int_pad4: assumes "0 \<le> n" "n \<le> 9999" shows "py_int (pad4 n) = n"
proof -
  define q1 where "q1 = n div 10"
  define q2 where "q2 = q1 div 10"
  define q3 where "q3 = q2 div 10"
  have e2: "n div 100 = q2" unfolding q2_def q1_def by (simp add: zdiv_zmult2_eq [symmetric])
  have e3: "n div 1000 = q3" unfolding q3_def q2_def q1_def by (simp add: zdiv_zmult2_eq [symmetric])
  have "py_int (pad4 n) = 1000 * (n div 1000 mod 10) + 100 * (n div 100 mod 10) + 10 * (n div 10 mod 10) + n mod 10"
    unfolding pad4_def by (rule py_int_four) (rule mod10_bounds)+
  then have p: "py_int (pad4 n) = 1000 * (q3 mod 10) + 100 * (q2 mod 10) + 10 * (q1 mod 10) + n mod 10"
    by (simp add: e2 e3 q1_def)
  have "q3 \<ge> 0" "q3 < 10" using assms e3 by auto
  then have m3: "q3 mod 10 = q3" by simp
  have d1: "n = 10 * q1 + n mod 10" unfolding q1_def by simp
  have d2: "q1 = 10 * q2 + q1 mod 10" unfolding q2_def by simp
  have d3: "q2 = 10 * q3 + q2 mod 10" unfolding q3_def by simp
  show ?thesis using p m3 d1 d2 d3 by linarith
qed

lemma days_in_month_le: "1 \<le> m \<Longrightarrow> m \<le> 12 \<Longrightarrow> days_in_month y m \<le> 31"
proof -
  assume "1 \<le> m" "m \<le> 12"
  then have "m = 1 \<or> m = 2 \<or> m = 3 \<or> m = 4 \<or> m = 5 \<or> m = 6 \<or> m = 7 \<or> m = 8 \<or> m = 9 \<or> m = 10 \<or> m = 11 \<or> m = 12" by arith
  then show ?thesis
    by (elim disjE) (simp_all add: days_in_month_def DAYS_IN_MONTH_def)
qed

lemma format_regex_strftime:
  assumes "0 \<le> y" "1 \<le> m" "m \<le> 12" "1 \<le> d" "d \<le> 31" "0 \<le> h" "h \<le> 23"
  shows "\<exists>t. format_regex (pad4 y @ pad2 m @ pad2 d @ pad2 h) = (pad4 y, pad2 m, pad2 d, pad2 h, []) # t"
proof -
  obtain t1 where m: "re_m (pad2 m @ pad2 d @ pad2 h) = (pad2 m, pad2 d @ pad2 h) # t1"
    using re_m_pad2 [OF assms(2,3)] by blast
  obtain t2 where d: "re_d (pad2 d @ pad2 h) = (pad2 d, pad2 h) # t2"
    using re_d_pad2 [OF assms(4,5)] by blast
  obtain t3 where h: "re_H (pad2 h) = (pad2 h, []) # t3"
    using re_H_pad2 [OF assms(6,7), of "[]"] by auto
  show ?thesis
    by (simp add: format_regex_def re_Y_pad4 [OF assms(1)] m d h)
qed

lemma strptime_strftime:
  assumes "check_date_fields (year t) (month t) (day t)" "0 \<le> hour t" "hour t \<le> 23"
    and "minute t = 0" "second t = 0" "microsecond t = 0"
  shows "strptime (strftime t) = Inr (t :: datetime)"
proof -
  from assms(1) have r: "1 \<le> year t" "year t \<le> 9999" "1 \<le> month t" "month t \<le> 12" "1 \<le> day t"
    "day t \<le> days_in_month (year t) (month t)"
    by (simp_all add: check_date_fields_def)
  then have d31: "day t \<le> 31" using days_in_month_le [of "month t" "year t"] by linarith
  from r have y0: "0 \<le> year t" by simp
  obtain tl where f: "format_regex (strftime t) =
      (pad4 (year t), pad2 (month t), pad2 (day t), pad2 (hour t), []) # tl"
    using format_regex_strftime [OF y0 r(3,4,5) d31 assms(2,3)] by (auto simp: strftime_def)
  have i: "py_int (pad4 (year t)) = year t" "py_int (pad2 (month t)) = month t"
    "py_int (pad2 (day t)) = day t" "py_int (pad2 (hour t)) = hour t"
    using r d31 assms(2,3) by (simp_all add: py_int_pad2 py_int_pad4)
  show ?thesis
    using assms by (simp add: strptime_def f i check_time_fields_def)
qed

lemma strptime_Inr:
  assumes "strptime k = (Inr t :: 'e exn + datetime)"
  shows "check_date_fields (year t) (month t) (day t) \<and> 0 \<le> hour t \<and> hour t \<le> 23
         \<and> minute t = 0 \<and> second t = 0 \<and> microsecond t = 0"
  using assms
  by (auto simp: strptime_def check_time_fields_def split: list.splits if_splits)

lemma strptime_Inl:
  "strptime k = (Inl e :: 'e exn + datetime) \<Longrightarrow> e = ValueError k"
  by (auto simp: strptime_def split: list.splits if_splits)

lemma strptime_roundtrip:
  "strptime k = (Inr t :: 'e exn + datetime) \<Longrightarrow> strptime (strftime t) = (Inr t :: 'f exn + datetime)"
  using strptime_Inr [of k t] strptime_strftime [of t] by blast

section \<open>Parsing a snapshot key and formatting it again\<close>

text \<open>
  Every match of the regular expression is a prefix of the key, four characters for the
  year and one or two for each other group. A key of ten digits that parses has therefore
  been split into four, two, two and two digits, and \<open>strftime\<close> writes the parsed date as
  the key itself.
\<close>

lemma rng_sound:
  "(a, r) \<in> set (rng lo hi s) \<Longrightarrow> \<exists>c. a = [c] \<and> s = c # r"
  by (cases s) (auto simp: rng_def split: if_splits)

lemma sq_sound:
  "(a, r) \<in> set (sq p q s) \<Longrightarrow> \<exists>a1 a2 r1. a = a1 @ a2 \<and> (a1, r1) \<in> set (p s) \<and> (a2, r) \<in> set (q r1)"
  by (auto simp: sq_def)

lemma alt_sound:
  "(a, r) \<in> set (alt p q s) \<Longrightarrow> (a, r) \<in> set (p s) \<or> (a, r) \<in> set (q s)"
  by (auto simp: alt_def)

lemma one_char:
  "(a, r) \<in> set (rng lo hi s) \<Longrightarrow> a @ r = s \<and> length a = 1"
  by (drule rng_sound) auto

lemma two_chars:
  assumes "(a, r) \<in> set (sq (rng l1 h1) (rng l2 h2) s)"
  shows "a @ r = s \<and> length a = 2"
proof -
  from sq_sound [OF assms] obtain a1 a2 r1 where
    "a = a1 @ a2" "(a1, r1) \<in> set (rng l1 h1 s)" "(a2, r) \<in> set (rng l2 h2 r1)" by blast
  then show ?thesis using one_char [of a1 r1 l1 h1 s] one_char [of a2 r l2 h2 r1] by auto
qed

lemma re_Y_sound:
  assumes "(a, r) \<in> set (re_Y s)"
  shows "a @ r = s \<and> length a = 4"
proof -
  from assms obtain a1 b1 r1 where 1: "a = a1 @ b1" "(a1, r1) \<in> set (dig s)" "(b1, r) \<in> set (sq dig (sq dig dig) r1)"
    unfolding re_Y_def by (blast dest: sq_sound)
  from 1(3) obtain a2 b2 r2 where 2: "b1 = a2 @ b2" "(a2, r2) \<in> set (dig r1)" "(b2, r) \<in> set (sq dig dig r2)"
    by (blast dest: sq_sound)
  from 1(2) have "a1 @ r1 = s \<and> length a1 = 1" unfolding dig_def by (rule one_char)
  moreover from 2(2) have "a2 @ r2 = r1 \<and> length a2 = 1" unfolding dig_def by (rule one_char)
  moreover from 2(3) have "b2 @ r = r2 \<and> length b2 = 2" unfolding dig_def by (rule two_chars)
  ultimately show ?thesis using 1(1) 2(1) by auto
qed

lemma re_m_sound:
  assumes "(a, r) \<in> set (re_m s)"
  shows "a @ r = s \<and> 1 \<le> length a \<and> length a \<le> 2"
  using assms unfolding re_m_def dig_def
  by (auto dest!: alt_sound dest: two_chars one_char)

lemma re_d_sound:
  assumes "(a, r) \<in> set (re_d s)"
  shows "a @ r = s \<and> 1 \<le> length a \<and> length a \<le> 2"
  using assms unfolding re_d_def dig_def
  by (auto dest!: alt_sound dest: two_chars one_char)

lemma re_H_sound:
  assumes "(a, r) \<in> set (re_H s)"
  shows "a @ r = s \<and> 1 \<le> length a \<and> length a \<le> 2"
  using assms unfolding re_H_def dig_def
  by (auto dest!: alt_sound dest: two_chars one_char)

lemma format_regex_sound:
  assumes "(y, m, d, h, r) \<in> set (format_regex s)"
  shows "y @ m @ d @ h @ r = s \<and> length y = 4 \<and> 1 \<le> length m \<and> length m \<le> 2
       \<and> 1 \<le> length d \<and> length d \<le> 2 \<and> 1 \<le> length h \<and> length h \<le> 2"
proof -
  from assms obtain r1 r2 r3 where
    "(y, r1) \<in> set (re_Y s)" "(m, r2) \<in> set (re_m r1)" "(d, r3) \<in> set (re_d r2)" "(h, r) \<in> set (re_H r3)"
    unfolding format_regex_def by auto
  then show ?thesis
    using re_Y_sound [of y r1 s] re_m_sound [of m r2 r1] re_d_sound [of d r3 r2] re_H_sound [of h r r3]
    by auto
qed

lemma digit_char_of_char:
  assumes "is_digit c"
  shows "digit_char (int (of_char c) - 48) = c" "0 \<le> int (of_char c) - 48" "int (of_char c) - 48 \<le> 9"
proof -
  from assms have b: "(48 :: nat) \<le> of_char c" "(of_char c :: nat) \<le> 57" by (simp_all add: is_digit_def)
  then have "48 + nat (int (of_char c) - 48) = (of_char c :: nat)" by simp
  then show "digit_char (int (of_char c) - 48) = c" by (simp add: digit_char_def)
  from b show "0 \<le> int (of_char c) - 48" "int (of_char c) - 48 \<le> 9" by simp_all
qed

lemma divmod10:
  assumes "0 \<le> r" "r < (10::int)"
  shows "(10 * q + r) div 10 = q" "(10 * q + r) mod 10 = r"
  using assms by simp_all

lemma pad2_digits:
  assumes "0 \<le> x" "x \<le> 9" "0 \<le> y" "y \<le> (9::int)"
  shows "pad2 (10 * x + y) = [digit_char x, digit_char y]"
proof -
  have "(10 * x + y) div 10 = x" "(10 * x + y) mod 10 = y" using assms by (simp_all add: divmod10)
  moreover have "x mod 10 = x" using assms by simp
  ultimately show ?thesis by (simp add: pad2_def)
qed

lemma pad4_digits:
  assumes "0 \<le> a" "a \<le> 9" "0 \<le> b" "b \<le> 9" "0 \<le> c" "c \<le> 9" "0 \<le> d" "d \<le> (9::int)"
  shows "pad4 (1000 * a + 100 * b + 10 * c + d) = [digit_char a, digit_char b, digit_char c, digit_char d]"
proof -
  define n where "n = 1000 * a + 100 * b + 10 * c + d"
  define n1 where "n1 = 100 * a + 10 * b + c"
  define n2 where "n2 = 10 * a + b"
  have e0: "n = 10 * n1 + d" by (simp add: n_def n1_def)
  have e1: "n1 = 10 * n2 + c" by (simp add: n1_def n2_def)
  have d_lt: "d < 10" "c < 10" "b < 10" "a < 10" using assms by simp_all
  have m0: "n mod 10 = d" unfolding e0 by (rule divmod10(2) [OF assms(7) d_lt(1)])
  have q0: "n div 10 = n1" unfolding e0 by (rule divmod10(1) [OF assms(7) d_lt(1)])
  have m1: "n1 mod 10 = c" unfolding e1 by (rule divmod10(2) [OF assms(5) d_lt(2)])
  have q1: "n1 div 10 = n2" unfolding e1 by (rule divmod10(1) [OF assms(5) d_lt(2)])
  have m2: "n2 mod 10 = b" unfolding n2_def by (rule divmod10(2) [OF assms(3) d_lt(3)])
  have q2: "n2 div 10 = a" unfolding n2_def by (rule divmod10(1) [OF assms(3) d_lt(3)])
  have m3: "a mod 10 = a" using assms by simp
  have h: "n div 100 = n div 10 div 10" by (simp add: zdiv_zmult2_eq [symmetric])
  have k: "n div 1000 = n div 10 div 10 div 10" by (simp add: zdiv_zmult2_eq [symmetric])
  have r2: "n div 100 mod 10 = b" unfolding h q0 q1 by (rule m2)
  have r3: "n div 1000 mod 10 = a" unfolding k q0 q1 q2 by (rule m3)
  have r1: "n div 10 mod 10 = c" unfolding q0 by (rule m1)
  show ?thesis unfolding n_def [symmetric] pad4_def by (simp only: m0 r1 r2 r3)
qed

lemma pad2_py_int:
  assumes "is_digit a" "is_digit b"
  shows "pad2 (py_int [a, b]) = [a, b]"
proof -
  let ?x = "int (of_char a) - 48" and ?y = "int (of_char b) - 48"
  have "py_int [digit_char ?x, digit_char ?y] = 10 * ?x + ?y"
    by (rule py_int_two) (rule digit_char_of_char [OF assms(1)] digit_char_of_char [OF assms(2)])+
  then have "py_int [a, b] = 10 * ?x + ?y"
    by (simp only: digit_char_of_char(1) [OF assms(1)] digit_char_of_char(1) [OF assms(2)])
  moreover have "pad2 (10 * ?x + ?y) = [digit_char ?x, digit_char ?y]"
    by (rule pad2_digits) (rule digit_char_of_char [OF assms(1)] digit_char_of_char [OF assms(2)])+
  ultimately show ?thesis
    by (simp only: digit_char_of_char(1) [OF assms(1)] digit_char_of_char(1) [OF assms(2)])
qed

lemma pad4_py_int:
  assumes "is_digit a" "is_digit b" "is_digit c" "is_digit d"
  shows "pad4 (py_int [a, b, c, d]) = [a, b, c, d]"
proof -
  let ?a = "int (of_char a) - 48" and ?b = "int (of_char b) - 48"
  let ?c = "int (of_char c) - 48" and ?d = "int (of_char d) - 48"
  note dc = digit_char_of_char [OF assms(1)] digit_char_of_char [OF assms(2)]
            digit_char_of_char [OF assms(3)] digit_char_of_char [OF assms(4)]
  note e = digit_char_of_char(1) [OF assms(1)] digit_char_of_char(1) [OF assms(2)]
           digit_char_of_char(1) [OF assms(3)] digit_char_of_char(1) [OF assms(4)]
  have "py_int [digit_char ?a, digit_char ?b, digit_char ?c, digit_char ?d] = 1000 * ?a + 100 * ?b + 10 * ?c + ?d"
    by (rule py_int_four) (rule dc)+
  then have "py_int [a, b, c, d] = 1000 * ?a + 100 * ?b + 10 * ?c + ?d" by (simp only: e)
  moreover have "pad4 (1000 * ?a + 100 * ?b + 10 * ?c + ?d) = [digit_char ?a, digit_char ?b, digit_char ?c, digit_char ?d]"
    by (rule pad4_digits) (rule dc)+
  ultimately show ?thesis by (simp only: e)
qed

lemma length2: "length xs = 2 \<Longrightarrow> \<exists>a b. xs = [a, b]"
  by (cases xs; cases "tl xs") auto

lemma length4: "length xs = 4 \<Longrightarrow> \<exists>a b c d. xs = [a, b, c, d]"
proof -
  assume "length xs = 4"
  then obtain a ys where 1: "xs = a # ys" "length ys = 3" by (cases xs) auto
  then obtain b zs where 2: "ys = b # zs" "length zs = 2" by (cases ys) auto
  from length2 [OF 2(2)] 1 2 show ?thesis by auto
qed

lemma ten_digit_roundtrip:
  assumes "snapshot_key k" "strptime k = (Inr t :: 'e exn + datetime)"
  shows "strftime t = k"
proof -
  from assms(2) obtain y m d h tl where f: "format_regex k = (y, m, d, h, []) # tl"
    and t: "t = \<lparr>year = py_int y, month = py_int m, day = py_int d, hour = py_int h,
                 minute = 0, second = 0, microsecond = 0\<rparr>"
    by (auto simp: strptime_def split: list.splits if_splits)
  from f have "(y, m, d, h, []) \<in> set (format_regex k)" by simp
  from format_regex_sound [OF this]
  have s: "y @ m @ d @ h = k" "length y = 4" "length m \<le> 2" "length d \<le> 2" "length h \<le> 2" by auto
  from assms(1) have l: "length k = 10" and dg: "\<forall>c\<in>set k. is_digit c"
    by (simp_all add: snapshot_key_def list_all_iff)
  have "length (y @ m @ d @ h) = 10" using s(1) l by simp
  then have "length y + length m + length d + length h = 10" by simp
  with s have lens: "length m = 2" "length d = 2" "length h = 2" by linarith+
  from s(1) dg have dgs: "\<forall>c\<in>set y. is_digit c" "\<forall>c\<in>set m. is_digit c"
    "\<forall>c\<in>set d. is_digit c" "\<forall>c\<in>set h. is_digit c" by auto
  from length4 [OF s(2)] dgs(1) have y: "pad4 (py_int y) = y" by (auto simp: pad4_py_int)
  from length2 [OF lens(1)] dgs(2) have m: "pad2 (py_int m) = m" by (auto simp: pad2_py_int)
  from length2 [OF lens(2)] dgs(3) have d: "pad2 (py_int d) = d" by (auto simp: pad2_py_int)
  from length2 [OF lens(3)] dgs(4) have h: "pad2 (py_int h) = h" by (auto simp: pad2_py_int)
  show ?thesis unfolding t strftime_def using y m d h s(1) by simp
qed

section \<open>Parsing, sorting and ingesting lists of keys\<close>

lemma date_lst_Inr:
  "date_lst ks = (Inr ds :: 'e exn + datetime list) \<Longrightarrow>
     list_all2 (\<lambda>k d. strptime k = (Inr d :: 'e exn + datetime)) ks ds"
  by (induction ks arbitrary: ds) (auto split: sum.splits)

lemma date_lst_set:
  assumes "date_lst ks = (Inr ds :: 'e exn + datetime list)"
  shows "set ds = {d. \<exists>k\<in>set ks. strptime k = (Inr d :: 'e exn + datetime)}"
proof -
  have l: "list_all2 (\<lambda>k d. strptime k = (Inr d :: 'e exn + datetime)) ks ds"
    using assms by (rule date_lst_Inr)
  show ?thesis
  proof (intro set_eqI iffI)
    fix d assume "d \<in> set ds"
    then obtain i where "i < length ds" "ds ! i = d" by (auto simp: in_set_conv_nth)
    with l have "strptime (ks ! i) = (Inr d :: 'e exn + datetime)" "ks ! i \<in> set ks"
      by (auto simp: list_all2_conv_all_nth)
    then show "d \<in> {d. \<exists>k\<in>set ks. strptime k = (Inr d :: 'e exn + datetime)}" by blast
  next
    fix d assume "d \<in> {d. \<exists>k\<in>set ks. strptime k = (Inr d :: 'e exn + datetime)}"
    then obtain k where "k \<in> set ks" "strptime k = (Inr d :: 'e exn + datetime)" by blast
    then obtain i where "i < length ks" "ks ! i = k" by (auto simp: in_set_conv_nth)
    with l \<open>strptime k = Inr d\<close> have "ds ! i = d" "i < length ds"
      by (auto simp: list_all2_conv_all_nth)
    then show "d \<in> set ds" by auto
  qed
qed

lemma date_lst_map:
  assumes "date_lst ks = (Inr ds :: 'e exn + datetime list)"
  shows "ds = map (\<lambda>k. projr (strptime k :: 'e exn + datetime)) ks"
  using assms by (induction ks arbitrary: ds) (auto split: sum.splits)

lemma date_lst_total:
  assumes "\<forall>k\<in>set ks. \<exists>d. strptime k = (Inr d :: 'e exn + datetime)"
  shows "date_lst ks = (Inr (map (\<lambda>k. projr (strptime k :: 'e exn + datetime)) ks) :: 'e exn + datetime list)"
  using assms by (induction ks) (auto split: sum.splits)

lemma date_lst_mset:
  assumes "mset ks1 = mset ks2" "date_lst ks1 = (Inr ds1 :: 'e exn + datetime list)"
  shows "\<exists>ds2. date_lst ks2 = (Inr ds2 :: 'e exn + datetime list) \<and> mset ds2 = mset ds1"
proof -
  let ?p = "\<lambda>k. projr (strptime k :: 'e exn + datetime)"
  have s: "set ks1 = set ks2" using assms(1) by (rule mset_eq_setD)
  have "\<forall>k\<in>set ks1. \<exists>d. strptime k = (Inr d :: 'e exn + datetime)"
    using date_lst_Inr [OF assms(2)] by (auto simp: list_all2_conv_all_nth in_set_conv_nth)
  then have "\<forall>k\<in>set ks2. \<exists>d. strptime k = (Inr d :: 'e exn + datetime)" using s by simp
  then have "date_lst ks2 = (Inr (map ?p ks2) :: 'e exn + datetime list)" by (rule date_lst_total)
  moreover have "ds1 = map ?p ks1" using assms(2) by (rule date_lst_map)
  moreover have "mset (map ?p ks2) = mset (map ?p ks1)" using assms(1) by (metis mset_map)
  ultimately show ?thesis by auto
qed

lemma inj_dt_key: "dt_key a = dt_key b \<Longrightarrow> a = (b :: datetime)"
  by (simp add: dt_key_def)

lemma filter_eq_replicate: "filter (\<lambda>x. k = x) zs = replicate (count (mset zs) k) k"
  by (induction zs) auto

lemma sort_key_mset:
  assumes "mset xs = mset (ys :: datetime list)"
  shows "sort_key dt_key xs = sort_key dt_key ys"
proof (rule properties_for_sort_key)
  show "mset (sort_key dt_key ys) = mset xs" using assms by simp
  show "sorted (map dt_key (sort_key dt_key ys))" by simp
  fix k assume "k \<in> set (sort_key dt_key ys)"
  have e: "(\<lambda>x. dt_key k = dt_key x) = (\<lambda>x. k = x)" using inj_dt_key by blast
  show "filter (\<lambda>x. dt_key k = dt_key x) (sort_key dt_key ys) = filter (\<lambda>x. dt_key k = dt_key x) xs"
    unfolding e filter_eq_replicate using assms by simp
qed

lemma forecast_df_lst_cong:
  assumes "map_of d1 = map_of d2"
    and "\<forall>k\<in>set ks. \<forall>p. map_of d1 k = Some p \<longrightarrow> e1 p = e2 p"
  shows "forecast_df_lst e1 d1 ks = forecast_df_lst e2 d2 ks"
  using assms by (induction ks) (auto split: option.splits sum.splits)

lemma forecast_df_lst_fragments:
  "forecast_df_lst engine forecast_dict ks = (Inr dfs :: 'e exn + 'r list list) \<Longrightarrow>
     list_all2 (\<lambda>k main_df. \<exists>path. map_of forecast_dict k = Some path \<and> engine path = Inr main_df) ks dfs"
  by (induction ks arbitrary: dfs) (auto split: option.splits sum.splits)

lemma forecast_date_lst_Inr:
  assumes "forecast_date_lst forecast_dict current_date = (Inr out :: 'e exn + string list)"
  obtains ds where "date_lst (map fst forecast_dict) = (Inr ds :: 'e exn + datetime list)"
    and "out = map strftime (sort_key dt_key (filter (in_window current_date) ds))"
  using assms by (auto simp: forecast_date_lst_def split: sum.splits)

lemma selected_set:
  assumes "forecast_date_lst forecast_dict current_date = (Inr out :: 'e exn + string list)"
  shows "set out = {strftime d | d. \<exists>k. k \<in> fst ` set forecast_dict \<and> strptime k = (Inr d :: 'e exn + datetime)
            \<and> 0 < sub_days d current_date \<and> sub_days d current_date \<le> 7}"
proof -
  obtain ds where ds: "date_lst (map fst forecast_dict) = (Inr ds :: 'e exn + datetime list)"
    and out: "out = map strftime (sort_key dt_key (filter (in_window current_date) ds))"
    using assms by (rule forecast_date_lst_Inr)
  have "set ds = {d. \<exists>k\<in>set (map fst forecast_dict). strptime k = (Inr d :: 'e exn + datetime)}"
    using ds by (rule date_lst_set)
  then show ?thesis unfolding out by (auto simp: in_window_def)
qed

lemma selected_parse:
  assumes "forecast_date_lst forecast_dict current_date = (Inr out :: 'e exn + string list)"
    and "s \<in> set out"
  shows "\<exists>d. strptime s = (Inr d :: 'e exn + datetime) \<and> s = strftime d
            \<and> 0 < sub_days d current_date \<and> sub_days d current_date \<le> 7"
proof -
  from assms obtain d k where d: "s = strftime d" "strptime k = (Inr d :: 'e exn + datetime)"
    "0 < sub_days d current_date" "sub_days d current_date \<le> 7"
    unfolding selected_set [OF assms(1)] by blast
  from d(2) have "strptime (strftime d) = (Inr d :: 'e exn + datetime)" by (rule strptime_roundtrip)
  with d show ?thesis by blast
qed

lemma selected_are_keys:
  assumes "\<forall>k\<in>fst ` set forecast_dict. snapshot_key k"
    and "forecast_date_lst forecast_dict current_date = (Inr out :: 'e exn + string list)"
  shows "set out = {k \<in> fst ` set forecast_dict. \<exists>d. strptime k = (Inr d :: 'e exn + datetime)
            \<and> 0 < sub_days d current_date \<and> sub_days d current_date \<le> 7}"
proof (intro set_eqI iffI)
  fix s assume "s \<in> set out"
  then obtain d k where dk: "s = strftime d" "k \<in> fst ` set forecast_dict"
    "strptime k = (Inr d :: 'e exn + datetime)" "0 < sub_days d current_date" "sub_days d current_date \<le> 7"
    unfolding selected_set [OF assms(2)] by blast
  from assms(1) dk(2) have "snapshot_key k" by blast
  from ten_digit_roundtrip [OF this dk(3)] dk(1) have "s = k" by simp
  with dk show "s \<in> {k \<in> fst ` set forecast_dict. \<exists>d. strptime k = (Inr d :: 'e exn + datetime)
            \<and> 0 < sub_days d current_date \<and> sub_days d current_date \<le> 7}" by blast
next
  fix s assume "s \<in> {k \<in> fst ` set forecast_dict. \<exists>d. strptime k = (Inr d :: 'e exn + datetime)
            \<and> 0 < sub_days d current_date \<and> sub_days d current_date \<le> 7}"
  then obtain d where d: "s \<in> fst ` set forecast_dict" "strptime s = (Inr d :: 'e exn + datetime)"
    "0 < sub_days d current_date" "sub_days d current_date \<le> 7" by blast
  from assms(1) d(1) have "snapshot_key s" by blast
  from ten_digit_roundtrip [OF this d(2)] have e: "s = strftime d" by simp
  have "\<exists>k. k \<in> fst ` set forecast_dict \<and> strptime k = (Inr d :: 'e exn + datetime)
            \<and> 0 < sub_days d current_date \<and> sub_days d current_date \<le> 7"
    using d by blast
  with e have "\<exists>d'. s = strftime d' \<and> (\<exists>k. k \<in> fst ` set forecast_dict \<and> strptime k = (Inr d' :: 'e exn + datetime)
            \<and> 0 < sub_days d' current_date \<and> sub_days d' current_date \<le> 7)"
    by blast
  then show "s \<in> set out" unfolding selected_set [OF assms(2)] by simp
qed

lemma forecast_df_lst_success:
  assumes "\<forall>k\<in>set ks. \<exists>path main_df. map_of forecast_dict k = Some path \<and> engine path = Inr main_df"
  shows "\<exists>dfs. forecast_df_lst engine forecast_dict ks = (Inr dfs :: 'e exn + 'r list list)"
  using assms by (induction ks) auto

lemma forecast_df_lst_first_failure:
  assumes "\<forall>j\<in>set ks. map_of forecast_dict j \<noteq> None"
    and "k \<in> set ks" "map_of forecast_dict k = Some p" "engine p = Inl e"
  shows "\<exists>ks1 k' ks2 p' e'. ks = ks1 @ k' # ks2
      \<and> (\<forall>j\<in>set ks1. \<exists>pj dfj. map_of forecast_dict j = Some pj \<and> engine pj = Inr dfj)
      \<and> map_of forecast_dict k' = Some p' \<and> engine p' = Inl e'
      \<and> forecast_df_lst engine forecast_dict ks = (Inl (Raised e') :: 'e exn + 'r list list)"
  using assms
proof (induction ks)
  case Nil
  then show ?case by simp
next
  case (Cons a ks)
  from Cons.prems(1) obtain pa where pa: "map_of forecast_dict a = Some pa" by auto
  show ?case
  proof (cases "engine pa")
    case (Inl ea)
    have "a # ks = [] @ a # ks \<and> (\<forall>j\<in>set []. \<exists>pj dfj. map_of forecast_dict j = Some pj \<and> engine pj = Inr dfj)
      \<and> map_of forecast_dict a = Some pa \<and> engine pa = Inl ea
      \<and> forecast_df_lst engine forecast_dict (a # ks) = (Inl (Raised ea) :: 'e exn + 'r list list)"
      using pa Inl by simp
    then show ?thesis by blast
  next
    case (Inr df)
    with pa Cons.prems have "k \<in> set ks" by auto
    moreover from Cons.prems(1) have "\<forall>j\<in>set ks. map_of forecast_dict j \<noteq> None" by simp
    ultimately obtain ks1 k' ks2 p' e' where IH: "ks = ks1 @ k' # ks2"
      "\<forall>j\<in>set ks1. \<exists>pj dfj. map_of forecast_dict j = Some pj \<and> engine pj = Inr dfj"
      "map_of forecast_dict k' = Some p'" "engine p' = Inl e'"
      "forecast_df_lst engine forecast_dict ks = (Inl (Raised e') :: 'e exn + 'r list list)"
      using Cons.IH [OF _ _ Cons.prems(3,4)] by blast
    have "a # ks = (a # ks1) @ k' # ks2
      \<and> (\<forall>j\<in>set (a # ks1). \<exists>pj dfj. map_of forecast_dict j = Some pj \<and> engine pj = Inr dfj)
      \<and> map_of forecast_dict k' = Some p' \<and> engine p' = Inl e'
      \<and> forecast_df_lst engine forecast_dict (a # ks) = (Inl (Raised e') :: 'e exn + 'r list list)"
      using IH pa Inr by simp
    then show ?thesis by blast
  qed
qed

lemma date_lst_first_failure:
  assumes "k \<in> set ks" "strptime k = (Inl e :: 'e exn + datetime)"
  shows "\<exists>ks1 k' ks2. ks = ks1 @ k' # ks2
      \<and> (\<forall>j\<in>set ks1. \<exists>d. strptime j = (Inr d :: 'e exn + datetime))
      \<and> strptime k' = (Inl (ValueError k') :: 'e exn + datetime)
      \<and> date_lst ks = (Inl (ValueError k') :: 'e exn + datetime list)"
  using assms
proof (induction ks)
  case Nil
  then show ?case by simp
next
  case (Cons a ks)
  show ?case
  proof (cases "strptime a :: 'e exn + datetime")
    case (Inl ea)
    then have ea: "ea = ValueError a" by (rule strptime_Inl)
    have "a # ks = [] @ a # ks \<and> (\<forall>j\<in>set []. \<exists>d. strptime j = (Inr d :: 'e exn + datetime))
      \<and> strptime a = (Inl (ValueError a) :: 'e exn + datetime)
      \<and> date_lst (a # ks) = (Inl (ValueError a) :: 'e exn + datetime list)"
      using Inl ea by simp
    then show ?thesis by blast
  next
    case (Inr da)
    with Cons.prems have "k \<in> set ks" by auto
    from Cons.IH [OF this Cons.prems(2)] obtain ks1 k' ks2 where IH: "ks = ks1 @ k' # ks2"
      "\<forall>j\<in>set ks1. \<exists>d. strptime j = (Inr d :: 'e exn + datetime)"
      "strptime k' = (Inl (ValueError k') :: 'e exn + datetime)"
      "date_lst ks = (Inl (ValueError k') :: 'e exn + datetime list)" by blast
    have "a # ks = (a # ks1) @ k' # ks2
      \<and> (\<forall>j\<in>set (a # ks1). \<exists>d. strptime j = (Inr d :: 'e exn + datetime))
      \<and> strptime k' = (Inl (ValueError k') :: 'e exn + datetime)
      \<and> date_lst (a # ks) = (Inl (ValueError k') :: 'e exn + datetime list)"
      using IH Inr by simp
    then show ?thesis by blast
  qed
qed

lemma selection_order_independent:
  assumes "distinct (map fst d1)" "distinct (map fst d2)" "set d1 = set d2"
    and "forecast_date_lst d1 current_date = (Inr out :: 'e exn + string list)"
  shows "forecast_date_lst d2 current_date = (Inr out :: 'e exn + string list)
    \<and> (\<exists>ds. list_all2 (\<lambda>s d. strptime s = (Inr d :: 'e exn + datetime)) out ds \<and> sorted (map dt_key ds))
    \<and> forecast_df_lst engine d1 out = (forecast_df_lst engine d2 out :: 'e exn + 'r list list)"
proof -
  obtain ds1 where ds1: "date_lst (map fst d1) = (Inr ds1 :: 'e exn + datetime list)"
    and out: "out = map strftime (sort_key dt_key (filter (in_window current_date) ds1))"
    using assms(4) by (rule forecast_date_lst_Inr)
  have "distinct d1" "distinct d2" using assms(1,2) by (auto simp: distinct_map)
  then have "mset d1 = mset d2" using assms(3) by (simp add: set_eq_iff_mset_eq_distinct)
  then have "mset (map fst d1) = mset (map fst d2)" by (metis mset_map)
  from date_lst_mset [OF this ds1] obtain ds2
    where ds2: "date_lst (map fst d2) = (Inr ds2 :: 'e exn + datetime list)" and m: "mset ds2 = mset ds1"
    by blast
  have "mset (filter (in_window current_date) ds2) = mset (filter (in_window current_date) ds1)"
    using m by (metis mset_filter)
  then have "sort_key dt_key (filter (in_window current_date) ds2) = sort_key dt_key (filter (in_window current_date) ds1)"
    by (rule sort_key_mset)
  then have a: "forecast_date_lst d2 current_date = (Inr out :: 'e exn + string list)"
    by (simp add: forecast_date_lst_def ds2 out)
  let ?sel = "sort_key dt_key (filter (in_window current_date) ds1)"
  have "\<forall>d\<in>set ?sel. strptime (strftime d) = (Inr d :: 'e exn + datetime)"
  proof
    fix d assume "d \<in> set ?sel"
    then have "d \<in> set ds1" by simp
    then obtain k where "strptime k = (Inr d :: 'e exn + datetime)"
      unfolding date_lst_set [OF ds1] by blast
    then show "strptime (strftime d) = (Inr d :: 'e exn + datetime)" by (rule strptime_roundtrip)
  qed
  then have "list_all2 (\<lambda>s d. strptime s = (Inr d :: 'e exn + datetime)) out ?sel"
    unfolding out by (simp add: list_all2_map1 list_all2_same)
  moreover have "sorted (map dt_key ?sel)" by simp
  ultimately have b: "\<exists>ds. list_all2 (\<lambda>s d. strptime s = (Inr d :: 'e exn + datetime)) out ds \<and> sorted (map dt_key ds)"
    by blast
  have "map_of d1 = map_of d2" using assms(1,2,3) by (simp add: map_of_inject_set)
  then have c: "forecast_df_lst engine d1 out = (forecast_df_lst engine d2 out :: 'e exn + 'r list list)"
    by (intro forecast_df_lst_cong) auto
  from a b c show ?thesis by blast
qed

lemma apply_standard_failing:
  assumes "\<forall>x. func x = Inl e" "theta \<noteq> []"
  shows "apply_standard func theta = Inl e"
proof (cases theta)
  case Nil
  with assms(2) show ?thesis by simp
next
  case (Cons c cols)
  obtain name col where "c = (name, col)" by (cases c)
  with Cons assms(1) show ?thesis by simp
qed

lemma df_empty_Nil: "\<not> df_empty theta \<Longrightarrow> theta \<noteq> []"
  by (auto simp: df_empty_def)

lemma theta_apply_nonempty:
  "\<not> df_empty theta \<Longrightarrow> theta_apply theta = (Inl (AttributeError ''degree'') :: 'e exn + 'v frame)"
  unfolding theta_apply_def df_apply_def
  by (simp add: apply_standard_failing [where e = "AttributeError ''degree''"] math_degree_def df_empty_Nil)

lemma theta_apply_empty:
  "df_empty theta \<Longrightarrow> theta_apply theta = (Inr theta :: 'e exn + 'v frame)"
  by (simp add: theta_apply_def df_apply_def)

lemma theta_apply_unchanged:
  "(case (theta_apply theta :: 'e exn + 'v frame) of Inr converted \<Rightarrow> converted | Inl e \<Rightarrow> theta) = theta"
  by (cases "df_empty theta") (simp_all add: theta_apply_nonempty theta_apply_empty)

section \<open>The claims\<close>

text \<open>
  Claim C1. For every catalog of snapshot keys that parse and every reference instant,
  the window filter of \<open>build_seven_day_forecast_data\<close> (lines 82-98) returns a selection,
  and the set of selected keys is exactly the set of keys of the catalog whose parsed
  timestamp satisfies \<open>0 < (parsed - reference).days \<le> 7\<close> under the floor whole-day
  difference. So a key exactly seven whole days ahead is selected, and no key outside the
  range ever is.
\<close>

theorem window_selection_exact:
  assumes "\<forall>k\<in>fst ` set forecast_dict. snapshot_key k \<and> (\<exists>d. strptime k = (Inr d :: 'e exn + datetime))"
  shows "\<exists>out. forecast_date_lst forecast_dict current_date = (Inr out :: 'e exn + string list)
    \<and> set out = {k \<in> fst ` set forecast_dict. \<exists>d. strptime k = (Inr d :: 'e exn + datetime)
            \<and> 0 < sub_days d current_date \<and> sub_days d current_date \<le> 7}"
proof -
  from assms have "\<forall>k\<in>set (map fst forecast_dict). \<exists>d. strptime k = (Inr d :: 'e exn + datetime)" by simp
  from date_lst_total [OF this] obtain out where
    out: "forecast_date_lst forecast_dict current_date = (Inr out :: 'e exn + string list)"
    by (simp add: forecast_date_lst_def)
  moreover from assms have "\<forall>k\<in>fst ` set forecast_dict. snapshot_key k" by blast
  from selected_are_keys [OF this out]
  have "set out = {k \<in> fst ` set forecast_dict. \<exists>d. strptime k = (Inr d :: 'e exn + datetime)
            \<and> 0 < sub_days d current_date \<and> sub_days d current_date \<le> 7}" .
  ultimately show ?thesis by blast
qed

text \<open>
  The claim at a catalog with a key exactly seven days after the reference instant
  2024-03-01T00:00 (selected), one eight days after it and one at the reference instant
  itself (both left out); the method returns the rows of that one file.
\<close>

theorem window_selection_exact_witness:
  "snapshot_key ''2024030800'' \<and> snapshot_key ''2024030900'' \<and> snapshot_key ''2024030100''
   \<and> strptime ''2024030800'' = (Inr \<lparr>year = 2024, month = 3, day = 8, hour = 0, minute = 0, second = 0, microsecond = 0\<rparr> :: string exn + datetime)
   \<and> strptime ''2024030900'' = (Inr \<lparr>year = 2024, month = 3, day = 9, hour = 0, minute = 0, second = 0, microsecond = 0\<rparr> :: string exn + datetime)
   \<and> strptime ''2024030100'' = (Inr \<lparr>year = 2024, month = 3, day = 1, hour = 0, minute = 0, second = 0, microsecond = 0\<rparr> :: string exn + datetime)
   \<and> sub_days \<lparr>year = 2024, month = 3, day = 8, hour = 0, minute = 0, second = 0, microsecond = 0\<rparr> reference_20240301 = 7
   \<and> sub_days \<lparr>year = 2024, month = 3, day = 9, hour = 0, minute = 0, second = 0, microsecond = 0\<rparr> reference_20240301 = 8
   \<and> sub_days \<lparr>year = 2024, month = 3, day = 1, hour = 0, minute = 0, second = 0, microsecond = 0\<rparr> reference_20240301 = 0
   \<and> forecast_date_lst boundary_catalog reference_20240301 = (Inr [''2024030800''] :: string exn + string list)
   \<and> build_seven_day_forecast_data scenario_pipeline (scenario_world boundary_catalog reference_20240301 one_row_engine)
       = Inr (Some [''E''])
   \<and> set [''2024030800''] = {k \<in> fst ` set boundary_catalog. \<exists>d. strptime k = (Inr d :: string exn + datetime)
            \<and> 0 < sub_days d reference_20240301 \<and> sub_days d reference_20240301 \<le> 7}"
proof -
  have k: "snapshot_key ''2024030800''" "snapshot_key ''2024030900''" "snapshot_key ''2024030100''"
    by code_simp+
  have p: "strptime ''2024030800'' = (Inr \<lparr>year = 2024, month = 3, day = 8, hour = 0, minute = 0, second = 0, microsecond = 0\<rparr> :: string exn + datetime)"
    "strptime ''2024030900'' = (Inr \<lparr>year = 2024, month = 3, day = 9, hour = 0, minute = 0, second = 0, microsecond = 0\<rparr> :: string exn + datetime)"
    "strptime ''2024030100'' = (Inr \<lparr>year = 2024, month = 3, day = 1, hour = 0, minute = 0, second = 0, microsecond = 0\<rparr> :: string exn + datetime)"
    by code_simp+
  have s: "sub_days \<lparr>year = 2024, month = 3, day = 8, hour = 0, minute = 0, second = 0, microsecond = 0\<rparr> reference_20240301 = 7"
    "sub_days \<lparr>year = 2024, month = 3, day = 9, hour = 0, minute = 0, second = 0, microsecond = 0\<rparr> reference_20240301 = 8"
    "sub_days \<lparr>year = 2024, month = 3, day = 1, hour = 0, minute = 0, second = 0, microsecond = 0\<rparr> reference_20240301 = 0"
    by code_simp+
  have h: "forecast_date_lst boundary_catalog reference_20240301 = (Inr [''2024030800''] :: string exn + string list)"
    by code_simp
  have a: "\<forall>k\<in>fst ` set boundary_catalog. snapshot_key k \<and> (\<exists>d. strptime k = (Inr d :: string exn + datetime))"
    using k p by (simp add: boundary_catalog_def)
  from window_selection_exact [OF a, of reference_20240301] h
  have "set [''2024030800''] = {k \<in> fst ` set boundary_catalog. \<exists>d. strptime k = (Inr d :: string exn + datetime)
            \<and> 0 < sub_days d reference_20240301 \<and> sub_days d reference_20240301 \<le> 7}"
    by auto
  moreover have "build_seven_day_forecast_data scenario_pipeline (scenario_world boundary_catalog reference_20240301 one_row_engine)
       = Inr (Some [''E''])"
    by code_simp
  ultimately show ?thesis using k p s h by blast
qed

text \<open>
  Claim C2 (as amended). With the reference instant 2024-03-01T00:00 and the catalog of
  the scenario, the selection is the key of B alone: A is six hours ahead, so its day
  difference is 0 and it is excluded, as are C (eight days ahead) and D (in the past).
  With an engine that returns one row per file the method returns the row of B.
\<close>

theorem scenario_selects_only_B:
  "forecast_date_lst scenario_catalog reference_20240301 = (Inr [''2024030206''] :: string exn + string list)
   \<and> build_seven_day_forecast_data scenario_pipeline (scenario_world scenario_catalog reference_20240301 one_row_engine)
       = Inr (Some [''B''])"
  by code_simp

text \<open>
  Claim C2 as stated, with A selected before B, fails.
\<close>

theorem scenario_selects_A_and_B_counterexample:
  "forecast_date_lst scenario_catalog reference_20240301 \<noteq> (Inr [''2024030106'', ''2024030206''] :: string exn + string list)"
  by code_simp

text \<open>
  Claim C3. On an empty selected sequence the method should fail with an explicit error,
  and its docstring lists \<open>ValueError\<close> under Raises for this case. The code catches the
  \<open>ValueError\<close> of the empty concatenation and only prints a message: at a catalog
  whose keys all lie outside the window the method returns \<open>None\<close> and no exception
  leaves it.
\<close>

theorem empty_window_swallows_error:
  "forecast_date_lst past_catalog reference_20240301 = (Inr [] :: string exn + string list)
   \<and> build_seven_day_forecast_data scenario_pipeline (scenario_world past_catalog reference_20240301 one_row_engine)
       = Inr None
   \<and> \<not> isl (build_seven_day_forecast_data scenario_pipeline (scenario_world past_catalog reference_20240301 one_row_engine))"
  by code_simp

text \<open>
  Claim C4. When every selected file is ingested, the frame that the method returns is
  the result of \<open>pd.concat\<close> on the frames of the selected keys, taken in the order of the
  selection, and the selection is sorted ascending by the timestamps the keys decode to:
  the rows of the master series are the rows of the fragments in chronological order.
  Two catalogs holding the same pairs of key and path, in any order of iteration, give
  the same result.
\<close>

theorem master_series_sorted_order_independent:
  assumes "distinct (map fst d1)" "distinct (map fst d2)" "set d1 = set d2"
    and "get_seven_day_forcast_files w1 (root_dir self) (client_name self) = Inr d1"
    and "get_seven_day_forcast_files w2 (root_dir self) (client_name self) = Inr d2"
    and "today w1 = today w2"
    and "dfs0_ingestion_engine w1 = dfs0_ingestion_engine w2"
    and "forecast_date_lst d1 (today w1) = (Inr ks :: 'e exn + string list)"
    and "\<forall>k\<in>set ks. \<exists>path main_df. map_of d1 k = Some path \<and> dfs0_ingestion_engine w1 path = Inr main_df"
  shows "\<exists>ds dfs. list_all2 (\<lambda>s d. strptime s = (Inr d :: 'e exn + datetime)) ks ds \<and> sorted (map dt_key ds)
      \<and> list_all2 (\<lambda>k main_df. \<exists>path. map_of d1 k = Some path \<and> dfs0_ingestion_engine w1 path = Inr main_df) ks dfs
      \<and> build_seven_day_forecast_data self w1
          = (case pd_concat dfs of Inr forecast_df \<Rightarrow> Inr (Some forecast_df)
             | Inl (ValueError msg) \<Rightarrow> Inr None | Inl e \<Rightarrow> Inl e)
      \<and> build_seven_day_forecast_data self w1 = (Inr (if ks = [] then None else Some (concat dfs)) :: 'e exn + 'r list option)
      \<and> build_seven_day_forecast_data self w2 = (build_seven_day_forecast_data self w1 :: 'e exn + 'r list option)"
proof -
  let ?engine = "dfs0_ingestion_engine w1"
  from selection_order_independent [OF assms(1,2,3,8), where engine = ?engine and 'r = 'r]
  obtain ds where sel2: "forecast_date_lst d2 (today w1) = (Inr ks :: 'e exn + string list)"
    and ds: "list_all2 (\<lambda>s d. strptime s = (Inr d :: 'e exn + datetime)) ks ds" "sorted (map dt_key ds)"
    and same: "forecast_df_lst ?engine d1 ks = (forecast_df_lst ?engine d2 ks :: 'e exn + 'r list list)"
    by blast
  from forecast_df_lst_success [OF assms(9)] obtain dfs where
    dfs: "forecast_df_lst ?engine d1 ks = (Inr dfs :: 'e exn + 'r list list)" by blast
  from forecast_df_lst_fragments [OF dfs]
  have fr: "list_all2 (\<lambda>k main_df. \<exists>path. map_of d1 k = Some path \<and> ?engine path = Inr main_df) ks dfs" .
  then have len: "length ks = length dfs" by (rule list_all2_lengthD)
  have b1: "build_seven_day_forecast_data self w1
          = (case pd_concat dfs of Inr forecast_df \<Rightarrow> Inr (Some forecast_df)
             | Inl (ValueError msg) \<Rightarrow> Inr None | Inl e \<Rightarrow> Inl e)"
    using assms(4,8) dfs by (simp add: build_seven_day_forecast_data_def)
  have b2: "build_seven_day_forecast_data self w1 = (Inr (if ks = [] then None else Some (concat dfs)) :: 'e exn + 'r list option)"
    unfolding b1 using len by (auto simp: pd_concat_def)
  have b3: "build_seven_day_forecast_data self w2 = (build_seven_day_forecast_data self w1 :: 'e exn + 'r list option)"
    using assms(4,5,6,7,8) sel2 same dfs by (simp add: build_seven_day_forecast_data_def)
  from ds fr b1 b2 b3 show ?thesis by blast
qed

text \<open>
  The claim at a catalog listed in descending order of date and at its reverse: both
  return the rows of B and then of F.
\<close>

theorem master_series_sorted_order_independent_witness:
  "distinct (map fst unsorted_catalog) \<and> distinct (map fst (rev unsorted_catalog))
   \<and> set unsorted_catalog = set (rev unsorted_catalog)
   \<and> forecast_date_lst unsorted_catalog reference_20240301 = (Inr [''2024030206'', ''2024030506''] :: string exn + string list)
   \<and> forecast_date_lst (rev unsorted_catalog) reference_20240301 = (Inr [''2024030206'', ''2024030506''] :: string exn + string list)
   \<and> build_seven_day_forecast_data scenario_pipeline (scenario_world unsorted_catalog reference_20240301 one_row_engine)
       = Inr (Some [''B'', ''F''])
   \<and> build_seven_day_forecast_data scenario_pipeline (scenario_world (rev unsorted_catalog) reference_20240301 one_row_engine)
       = build_seven_day_forecast_data scenario_pipeline (scenario_world unsorted_catalog reference_20240301 one_row_engine)"
proof -
  let ?w1 = "scenario_world unsorted_catalog reference_20240301 one_row_engine"
  let ?w2 = "scenario_world (rev unsorted_catalog) reference_20240301 one_row_engine"
  have h1: "distinct (map fst unsorted_catalog)" by (simp add: unsorted_catalog_def)
  have h2: "distinct (map fst (rev unsorted_catalog))" by (simp add: unsorted_catalog_def)
  have h3: "set unsorted_catalog = set (rev unsorted_catalog)" by simp
  have h4: "get_seven_day_forcast_files ?w1 (root_dir scenario_pipeline) (client_name scenario_pipeline) = Inr unsorted_catalog"
    by (simp add: scenario_world_def)
  have h5: "get_seven_day_forcast_files ?w2 (root_dir scenario_pipeline) (client_name scenario_pipeline) = Inr (rev unsorted_catalog)"
    by (simp add: scenario_world_def)
  have h6: "today ?w1 = today ?w2" by (simp add: scenario_world_def)
  have h7: "dfs0_ingestion_engine ?w1 = dfs0_ingestion_engine ?w2" by (simp add: scenario_world_def)
  have t: "today ?w1 = reference_20240301" by (simp add: scenario_world_def)
  have s: "forecast_date_lst unsorted_catalog reference_20240301 = (Inr [''2024030206'', ''2024030506''] :: string exn + string list)"
    by code_simp
  have s': "forecast_date_lst (rev unsorted_catalog) reference_20240301 = (Inr [''2024030206'', ''2024030506''] :: string exn + string list)"
    by code_simp
  have h8: "forecast_date_lst unsorted_catalog (today ?w1) = (Inr [''2024030206'', ''2024030506''] :: string exn + string list)"
    unfolding t by (rule s)
  have h9: "\<forall>k\<in>set [''2024030206'', ''2024030506'']. \<exists>path main_df. map_of unsorted_catalog k = Some path
      \<and> dfs0_ingestion_engine ?w1 path = Inr main_df"
    by (simp add: unsorted_catalog_def scenario_world_def one_row_engine_def)
  have b: "build_seven_day_forecast_data scenario_pipeline ?w1 = Inr (Some [''B'', ''F''])" by code_simp
  from master_series_sorted_order_independent [OF h1 h2 h3 h4 h5 h6 h7 h8 h9]
  have "build_seven_day_forecast_data scenario_pipeline ?w2 = build_seven_day_forecast_data scenario_pipeline ?w1"
    by blast
  with h1 h2 h3 s s' b show ?thesis by blast
qed

text \<open>
  Claim C5 (as amended). For a catalog of snapshot keys, if the ingestion of a selected
  file fails, the whole call fails and no frame is returned. The exception that reaches
  the caller is the one the ingestion engine raised for the first selected key, in
  ascending order, whose ingestion fails; it is passed on as the engine raised it, not
  wrapped in an error that carries the key of the file.
\<close>

theorem ingestion_failure_propagates:
  assumes "get_seven_day_forcast_files w (root_dir self) (client_name self) = Inr forecast_dict"
    and "\<forall>j\<in>fst ` set forecast_dict. snapshot_key j"
    and "forecast_date_lst forecast_dict (today w) = (Inr ks :: 'e exn + string list)"
    and "k \<in> set ks" "map_of forecast_dict k = Some p" "dfs0_ingestion_engine w p = Inl e"
  shows "\<exists>ks1 k' ks2 p' e'. ks = ks1 @ k' # ks2
      \<and> (\<forall>j\<in>set ks1. \<exists>pj dfj. map_of forecast_dict j = Some pj \<and> dfs0_ingestion_engine w pj = Inr dfj)
      \<and> map_of forecast_dict k' = Some p' \<and> dfs0_ingestion_engine w p' = Inl e'
      \<and> build_seven_day_forecast_data self w = (Inl (Raised e') :: 'e exn + 'r list option)"
proof -
  have "\<forall>j\<in>set ks. map_of forecast_dict j \<noteq> None"
  proof
    fix j assume "j \<in> set ks"
    then have "j \<in> fst ` set forecast_dict"
      unfolding selected_are_keys [OF assms(2,3)] by simp
    then show "map_of forecast_dict j \<noteq> None" by (simp add: map_of_eq_None_iff)
  qed
  from forecast_df_lst_first_failure [where engine = "dfs0_ingestion_engine w", OF this assms(4,5,6)]
  obtain ks1 k' ks2 p' e' where f: "ks = ks1 @ k' # ks2"
      "\<forall>j\<in>set ks1. \<exists>pj dfj. map_of forecast_dict j = Some pj \<and> dfs0_ingestion_engine w pj = Inr dfj"
      "map_of forecast_dict k' = Some p'" "dfs0_ingestion_engine w p' = Inl e'"
      "forecast_df_lst (dfs0_ingestion_engine w) forecast_dict ks = (Inl (Raised e') :: 'e exn + 'r list list)"
    by blast
  have "build_seven_day_forecast_data self w = (Inl (Raised e') :: 'e exn + 'r list option)"
    using assms(1,3) f(5) by (simp add: build_seven_day_forecast_data_def)
  with f(1,2,3,4) show ?thesis by blast
qed

text \<open>
  The claim at a catalog of three selected runs of which the second and the third cannot
  be read: the exception is that of the second.
\<close>

theorem ingestion_failure_propagates_witness:
  "get_seven_day_forcast_files (scenario_world three_run_catalog reference_20240301 partly_unreadable_engine)
      (root_dir scenario_pipeline) (client_name scenario_pipeline) = Inr three_run_catalog
   \<and> snapshot_key ''2024030506'' \<and> snapshot_key ''2024030306'' \<and> snapshot_key ''2024030206''
   \<and> forecast_date_lst three_run_catalog reference_20240301
       = (Inr [''2024030206'', ''2024030306'', ''2024030506''] :: string exn + string list)
   \<and> map_of three_run_catalog ''2024030506'' = Some ''late''
   \<and> partly_unreadable_engine ''late'' = Inl ''late is unreadable''
   \<and> build_seven_day_forecast_data scenario_pipeline
        (scenario_world three_run_catalog reference_20240301 partly_unreadable_engine) = Inl (Raised ''middle is unreadable'')
   \<and> (\<exists>ks1 k' ks2 p' e'. [''2024030206'', ''2024030306'', ''2024030506''] = ks1 @ k' # ks2
         \<and> map_of three_run_catalog k' = Some p' \<and> partly_unreadable_engine p' = Inl e'
         \<and> build_seven_day_forecast_data scenario_pipeline
              (scenario_world three_run_catalog reference_20240301 partly_unreadable_engine) = Inl (Raised e'))"
proof -
  let ?w = "scenario_world three_run_catalog reference_20240301 partly_unreadable_engine"
  have e: "dfs0_ingestion_engine ?w = partly_unreadable_engine" by (simp add: scenario_world_def)
  have t: "today ?w = reference_20240301" by (simp add: scenario_world_def)
  have h1: "get_seven_day_forcast_files ?w (root_dir scenario_pipeline) (client_name scenario_pipeline) = Inr three_run_catalog"
    by (simp add: scenario_world_def)
  have k: "snapshot_key ''2024030506''" "snapshot_key ''2024030306''" "snapshot_key ''2024030206''"
    by code_simp+
  then have h2: "\<forall>j\<in>fst ` set three_run_catalog. snapshot_key j" by (simp add: three_run_catalog_def)
  have s: "forecast_date_lst three_run_catalog reference_20240301
       = (Inr [''2024030206'', ''2024030306'', ''2024030506''] :: string exn + string list)"
    by code_simp
  have h3: "forecast_date_lst three_run_catalog (today ?w)
       = (Inr [''2024030206'', ''2024030306'', ''2024030506''] :: string exn + string list)"
    unfolding t by (rule s)
  have h4: "''2024030506'' \<in> set [''2024030206'', ''2024030306'', ''2024030506'']" by simp
  have h5: "map_of three_run_catalog ''2024030506'' = Some ''late''" by (simp add: three_run_catalog_def)
  have l: "partly_unreadable_engine ''late'' = Inl ''late is unreadable''" by (simp add: partly_unreadable_engine_def)
  have h6: "dfs0_ingestion_engine ?w ''late'' = Inl ''late is unreadable''" unfolding e by (rule l)
  have b: "build_seven_day_forecast_data scenario_pipeline ?w = Inl (Raised ''middle is unreadable'')" by code_simp
  from ingestion_failure_propagates [OF h1 h2 h3 h4 h5 h6]
  have "\<exists>ks1 k' ks2 p' e'. [''2024030206'', ''2024030306'', ''2024030506''] = ks1 @ k' # ks2
         \<and> map_of three_run_catalog k' = Some p' \<and> partly_unreadable_engine p' = Inl e'
         \<and> build_seven_day_forecast_data scenario_pipeline ?w = Inl (Raised e')"
    unfolding e by blast
  with h1 k s h5 l b show ?thesis by blast
qed

text \<open>
  Claim C5 as stated fails: two catalogs whose failing files have different keys give the
  very same exception, so the exception does not tell the key.
\<close>

theorem tagged_error_counterexample:
  "forecast_date_lst [(''2024030206'', ''p'')] reference_20240301 = (Inr [''2024030206''] :: string exn + string list)
   \<and> forecast_date_lst [(''2024030306'', ''p'')] reference_20240301 = (Inr [''2024030306''] :: string exn + string list)
   \<and> build_seven_day_forecast_data scenario_pipeline (scenario_world [(''2024030206'', ''p'')] reference_20240301 unreadable_engine)
       = Inl (Raised ''unreadable'')
   \<and> build_seven_day_forecast_data scenario_pipeline (scenario_world [(''2024030306'', ''p'')] reference_20240301 unreadable_engine)
       = Inl (Raised ''unreadable'')"
  by code_simp

text \<open>
  Claim C6 (as amended). If \<open>strptime\<close> rejects a key of the catalog under the format
  \<open>%Y%m%d%H\<close>, the method raises the \<open>ValueError\<close> of \<open>strptime\<close> for the first such key in
  iteration order: the parse lies outside the \<open>try\<close> statement, so the error reaches the
  caller, and no frame and no \<open>None\<close> is returned.
\<close>

theorem malformed_key_raises:
  assumes "get_seven_day_forcast_files w (root_dir self) (client_name self) = Inr forecast_dict"
    and "k \<in> fst ` set forecast_dict"
    and "strptime k = (Inl e :: 'e exn + datetime)"
  shows "\<exists>ks1 k' ks2. map fst forecast_dict = ks1 @ k' # ks2
      \<and> (\<forall>j\<in>set ks1. \<exists>d. strptime j = (Inr d :: 'e exn + datetime))
      \<and> strptime k' = (Inl (ValueError k') :: 'e exn + datetime)
      \<and> build_seven_day_forecast_data self w = (Inl (ValueError k') :: 'e exn + 'r list option)"
proof -
  from assms(2) have "k \<in> set (map fst forecast_dict)" by simp
  from date_lst_first_failure [OF this assms(3)] obtain ks1 k' ks2 where
    f: "map fst forecast_dict = ks1 @ k' # ks2"
      "\<forall>j\<in>set ks1. \<exists>d. strptime j = (Inr d :: 'e exn + datetime)"
      "strptime k' = (Inl (ValueError k') :: 'e exn + datetime)"
      "date_lst (map fst forecast_dict) = (Inl (ValueError k') :: 'e exn + datetime list)" by blast
  have "build_seven_day_forecast_data self w = (Inl (ValueError k') :: 'e exn + 'r list option)"
    using assms(1) f(4) by (simp add: build_seven_day_forecast_data_def forecast_date_lst_def)
  with f(1,2,3) show ?thesis by blast
qed

text \<open>
  The claim at a catalog with the key \<open>notadate\<close>.
\<close>

theorem malformed_key_raises_witness:
  "get_seven_day_forcast_files (scenario_world malformed_catalog reference_20240301 one_row_engine)
      (root_dir scenario_pipeline) (client_name scenario_pipeline) = Inr malformed_catalog
   \<and> ''notadate'' \<in> fst ` set malformed_catalog
   \<and> strptime ''notadate'' = (Inl (ValueError ''notadate'') :: string exn + datetime)
   \<and> build_seven_day_forecast_data scenario_pipeline (scenario_world malformed_catalog reference_20240301 one_row_engine)
       = Inl (ValueError ''notadate'')
   \<and> (\<exists>ks1 k' ks2. map fst malformed_catalog = ks1 @ k' # ks2
         \<and> build_seven_day_forecast_data scenario_pipeline (scenario_world malformed_catalog reference_20240301 one_row_engine)
             = Inl (ValueError k'))"
proof -
  let ?w = "scenario_world malformed_catalog reference_20240301 one_row_engine"
  have h1: "get_seven_day_forcast_files ?w (root_dir scenario_pipeline) (client_name scenario_pipeline) = Inr malformed_catalog"
    by (simp add: scenario_world_def)
  have h2: "''notadate'' \<in> fst ` set malformed_catalog" by (simp add: malformed_catalog_def)
  have h3: "strptime ''notadate'' = (Inl (ValueError ''notadate'') :: string exn + datetime)" by code_simp
  have b: "build_seven_day_forecast_data scenario_pipeline ?w = Inl (ValueError ''notadate'')" by code_simp
  from malformed_key_raises [OF h1 h2 h3]
  have "\<exists>ks1 k' ks2. map fst malformed_catalog = ks1 @ k' # ks2
         \<and> build_seven_day_forecast_data scenario_pipeline ?w = Inl (ValueError k')"
    by blast
  with h1 h2 h3 b show ?thesis by blast
qed

text \<open>
  Claim C6 as stated fails: \<open>2024318\<close> is not written in the fixed zero-padded format, yet
  \<open>strptime\<close> accepts it (as 2024-03-01 08:00). With the reference instant
  2024-03-01T00:00 no parse error is raised, the key falls out of the window unnoticed,
  and the method returns the frame of B.
\<close>

theorem lenient_parse_counterexample:
  "\<not> snapshot_key ''2024318''
   \<and> ''2024318'' \<in> fst ` set lenient_catalog
   \<and> strptime ''2024318'' = (Inr \<lparr>year = 2024, month = 3, day = 1, hour = 8, minute = 0, second = 0, microsecond = 0\<rparr> :: string exn + datetime)
   \<and> build_seven_day_forecast_data scenario_pipeline (scenario_world lenient_catalog reference_20240301 one_row_engine)
       = Inr (Some [''B''])"
  by code_simp

text \<open>
  Claim C7 (as amended). Two invocations that read the same instant from the system
  clock, against the same catalog and with engines that agree on the paths of the
  catalog, return the same result. The reference instant is read inside the method by
  \<open>datetime.today()\<close>; the caller does not supply it.
\<close>

theorem same_clock_same_result:
  assumes "get_seven_day_forcast_files w1 (root_dir self) (client_name self) = Inr forecast_dict"
    and "get_seven_day_forcast_files w2 (root_dir self) (client_name self) = Inr forecast_dict"
    and "today w1 = today w2"
    and "\<forall>path. path \<in> snd ` set forecast_dict \<longrightarrow> dfs0_ingestion_engine w1 path = dfs0_ingestion_engine w2 path"
  shows "build_seven_day_forecast_data self w1 = (build_seven_day_forecast_data self w2 :: 'e exn + 'r list option)"
proof -
  have "forecast_df_lst (dfs0_ingestion_engine w1) forecast_dict ks
        = (forecast_df_lst (dfs0_ingestion_engine w2) forecast_dict ks :: 'e exn + 'r list list)" for ks
  proof (rule forecast_df_lst_cong)
    show "map_of forecast_dict = map_of forecast_dict" by simp
    show "\<forall>k\<in>set ks. \<forall>p. map_of forecast_dict k = Some p \<longrightarrow> dfs0_ingestion_engine w1 p = dfs0_ingestion_engine w2 p"
    proof (intro ballI allI impI)
      fix k p assume "map_of forecast_dict k = Some p"
      then have "(k, p) \<in> set forecast_dict" by (rule map_of_SomeD)
      then have "p \<in> snd ` set forecast_dict" by force
      with assms(4) show "dfs0_ingestion_engine w1 p = dfs0_ingestion_engine w2 p" by blast
    qed
  qed
  then show ?thesis using assms(1,2,3)
    by (simp add: build_seven_day_forecast_data_def split: sum.splits)
qed

text \<open>
  The claim at two worlds whose engines differ only outside the catalog.
\<close>

theorem same_clock_same_result_witness:
  "get_seven_day_forcast_files (scenario_world scenario_catalog reference_20240301 one_row_engine)
      (root_dir scenario_pipeline) (client_name scenario_pipeline) = Inr scenario_catalog
   \<and> get_seven_day_forcast_files (scenario_world scenario_catalog reference_20240301 catalog_only_engine)
      (root_dir scenario_pipeline) (client_name scenario_pipeline) = Inr scenario_catalog
   \<and> today (scenario_world scenario_catalog reference_20240301 one_row_engine)
       = today (scenario_world scenario_catalog reference_20240301 catalog_only_engine)
   \<and> snd ` set scenario_catalog = {''A'', ''B'', ''C'', ''D''}
   \<and> one_row_engine ''A'' = catalog_only_engine ''A'' \<and> one_row_engine ''B'' = catalog_only_engine ''B''
   \<and> one_row_engine ''C'' = catalog_only_engine ''C'' \<and> one_row_engine ''D'' = catalog_only_engine ''D''
   \<and> one_row_engine ''E'' \<noteq> catalog_only_engine ''E''
   \<and> build_seven_day_forecast_data scenario_pipeline (scenario_world scenario_catalog reference_20240301 one_row_engine)
       = build_seven_day_forecast_data scenario_pipeline (scenario_world scenario_catalog reference_20240301 catalog_only_engine)"
proof -
  let ?w1 = "scenario_world scenario_catalog reference_20240301 one_row_engine"
  let ?w2 = "scenario_world scenario_catalog reference_20240301 catalog_only_engine"
  have h1: "get_seven_day_forcast_files ?w1 (root_dir scenario_pipeline) (client_name scenario_pipeline) = Inr scenario_catalog"
    by (simp add: scenario_world_def)
  have h2: "get_seven_day_forcast_files ?w2 (root_dir scenario_pipeline) (client_name scenario_pipeline) = Inr scenario_catalog"
    by (simp add: scenario_world_def)
  have h3: "today ?w1 = today ?w2" by (simp add: scenario_world_def)
  have h4: "\<forall>path. path \<in> snd ` set scenario_catalog \<longrightarrow> dfs0_ingestion_engine ?w1 path = dfs0_ingestion_engine ?w2 path"
    by (auto simp: scenario_world_def scenario_catalog_def one_row_engine_def catalog_only_engine_def)
  have h5: "snd ` set scenario_catalog = {''A'', ''B'', ''C'', ''D''}"
    by (simp add: scenario_catalog_def)
  have h6: "one_row_engine ''A'' = catalog_only_engine ''A''" "one_row_engine ''B'' = catalog_only_engine ''B''"
    "one_row_engine ''C'' = catalog_only_engine ''C''" "one_row_engine ''D'' = catalog_only_engine ''D''"
    "one_row_engine ''E'' \<noteq> catalog_only_engine ''E''"
    by (simp_all add: one_row_engine_def catalog_only_engine_def)
  from same_clock_same_result [OF h1 h2 h3 h4] h1 h2 h3 h5 h6 show ?thesis by blast
qed

text \<open>
  Claim C7 as stated fails: with the same pipeline object, catalog and engine, the result
  changes with the reading of the clock.
\<close>

theorem ambient_clock_counterexample:
  "build_seven_day_forecast_data scenario_pipeline (scenario_world scenario_catalog reference_20240301 one_row_engine)
     = Inr (Some [''B''])
   \<and> build_seven_day_forecast_data scenario_pipeline (scenario_world scenario_catalog reference_20240401 one_row_engine)
     = Inr None"
  by code_simp

text \<open>
  Claim C8. When the selected sequence is empty the method returns \<open>None\<close>: the
  \<open>ValueError\<close> of the empty concatenation is caught and no exception leaves the method.
\<close>

theorem empty_window_returns_None:
  assumes "get_seven_day_forcast_files w (root_dir self) (client_name self) = Inr forecast_dict"
    and "forecast_date_lst forecast_dict (today w) = (Inr [] :: 'e exn + string list)"
  shows "build_seven_day_forecast_data self w = (Inr None :: 'e exn + 'r list option)"
  using assms by (simp add: build_seven_day_forecast_data_def pd_concat_def)

text \<open>
  The claim at the empty catalog.
\<close>

theorem empty_window_returns_None_witness:
  "get_seven_day_forcast_files (scenario_world [] reference_20240301 one_row_engine)
      (root_dir scenario_pipeline) (client_name scenario_pipeline) = Inr []
   \<and> forecast_date_lst [] (today (scenario_world [] reference_20240301 one_row_engine)) = (Inr [] :: string exn + string list)
   \<and> build_seven_day_forecast_data scenario_pipeline (scenario_world [] reference_20240301 one_row_engine) = Inr None"
proof -
  have h1: "get_seven_day_forcast_files (scenario_world [] reference_20240301 one_row_engine)
      (root_dir scenario_pipeline) (client_name scenario_pipeline) = Inr []"
    by (simp add: scenario_world_def)
  have h2: "forecast_date_lst [] (today (scenario_world [] reference_20240301 one_row_engine)) = (Inr [] :: string exn + string list)"
    by code_simp
  from empty_window_returns_None [OF h1 h2] h1 h2 show ?thesis by simp
qed

text \<open>
  Claim C9. A key whose date is after the reference instant with a day difference of 0,
  that is, less than one full day ahead, is not selected, neither as written nor in its
  rendering.
\<close>

theorem sub_day_ahead_excluded:
  assumes "forecast_date_lst forecast_dict current_date = (Inr out :: 'e exn + string list)"
    and "k \<in> fst ` set forecast_dict"
    and "strptime k = (Inr d :: 'e exn + datetime)"
    and "dt_key current_date < dt_key d"
    and "sub_days d current_date = 0"
  shows "k \<notin> set out \<and> strftime d \<notin> set out"
proof -
  have r: "strptime (strftime d) = (Inr d :: 'e exn + datetime)" using assms(3) by (rule strptime_roundtrip)
  have "k \<notin> set out"
  proof
    assume "k \<in> set out"
    from selected_parse [OF assms(1) this] assms(3,5) show False by auto
  qed
  moreover have "strftime d \<notin> set out"
  proof
    assume "strftime d \<in> set out"
    from selected_parse [OF assms(1) this] r assms(5) show False by auto
  qed
  ultimately show ?thesis by simp
qed

text \<open>
  The claim at the key \<open>2024030106\<close>, six hours after the reference instant.
\<close>

theorem sub_day_ahead_excluded_witness:
  "forecast_date_lst scenario_catalog reference_20240301 = (Inr [''2024030206''] :: string exn + string list)
   \<and> ''2024030106'' \<in> fst ` set scenario_catalog
   \<and> strptime ''2024030106'' = (Inr \<lparr>year = 2024, month = 3, day = 1, hour = 6, minute = 0, second = 0, microsecond = 0\<rparr> :: string exn + datetime)
   \<and> dt_key reference_20240301 < dt_key \<lparr>year = 2024, month = 3, day = 1, hour = 6, minute = 0, second = 0, microsecond = 0\<rparr>
   \<and> sub_days \<lparr>year = 2024, month = 3, day = 1, hour = 6, minute = 0, second = 0, microsecond = 0\<rparr> reference_20240301 = 0
   \<and> ''2024030106'' \<notin> set [''2024030206'']"
proof -
  let ?d = "\<lparr>year = 2024, month = 3, day = 1, hour = 6, minute = 0, second = 0, microsecond = 0\<rparr>"
  have h1: "forecast_date_lst scenario_catalog reference_20240301 = (Inr [''2024030206''] :: string exn + string list)"
    by code_simp
  have h2: "''2024030106'' \<in> fst ` set scenario_catalog" by (simp add: scenario_catalog_def)
  have h3: "strptime ''2024030106'' = (Inr ?d :: string exn + datetime)" by code_simp
  have h4: "dt_key reference_20240301 < dt_key ?d" by (simp add: dt_key_def reference_20240301_def)
  have h5: "sub_days ?d reference_20240301 = 0" by code_simp
  from sub_day_ahead_excluded [OF h1 h2 h3 h4 h5] h1 h2 h3 h4 h5 show ?thesis by blast
qed

text \<open>
  Claim C10 (as amended). In \<open>create_polar_plot\<close> the conversion of theta to degrees is
  never applied, and the theta values of a returned plot are a column of the frame that
  \<open>get_node_data\<close> returned. The function of the conversion raises \<open>AttributeError\<close> on
  every argument. On a frame with at least one column and one row the conversion raises
  that error and the bare \<open>except\<close> ignores it; on a frame without a column or without a
  row \<open>apply\<close> raises nothing and returns the frame unchanged.
\<close>

theorem theta_conversion_never_applied:
  "(\<forall>x. math_degree x = (Inl (AttributeError ''degree'') :: 'e exn + 'v list))
   \<and> (\<not> df_empty theta \<longrightarrow> theta_apply theta = (Inl (AttributeError ''degree'') :: 'e exn + 'v frame))
   \<and> (df_empty theta \<longrightarrow> theta_apply theta = (Inr theta :: 'e exn + 'v frame))
   \<and> (case (theta_apply theta :: 'e exn + 'v frame) of Inr converted \<Rightarrow> converted | Inl e \<Rightarrow> theta) = theta
   \<and> (\<forall>plot. create_polar_plot get_node_data long lat depth r_column theta_column = (Inr plot :: 'e exn + 'v barpolar) \<longrightarrow>
        (\<exists>theta0 theta_format. get_node_data long lat depth theta_column = Inr theta0
           \<and> getitem timeseries_format theta_column = (Inr theta_format :: 'e exn + plot_format)
           \<and> getitem theta0 (df_column theta_format) = (Inr (barpolar_theta plot) :: 'e exn + 'v list)))"
proof (intro conjI allI impI)
  fix x :: "'v list"
  show "math_degree x = (Inl (AttributeError ''degree'') :: 'e exn + 'v list)" by (simp add: math_degree_def)
next
  assume "\<not> df_empty theta"
  then show "theta_apply theta = (Inl (AttributeError ''degree'') :: 'e exn + 'v frame)"
    by (rule theta_apply_nonempty)
next
  assume "df_empty theta"
  then show "theta_apply theta = (Inr theta :: 'e exn + 'v frame)" by (rule theta_apply_empty)
next
  show "(case (theta_apply theta :: 'e exn + 'v frame) of Inr converted \<Rightarrow> converted | Inl e \<Rightarrow> theta) = theta"
    by (rule theta_apply_unchanged)
next
  fix plot :: "'v barpolar"
  assume "create_polar_plot get_node_data long lat depth r_column theta_column = (Inr plot :: 'e exn + 'v barpolar)"
  then show "\<exists>theta0 theta_format. get_node_data long lat depth theta_column = Inr theta0
           \<and> getitem timeseries_format theta_column = (Inr theta_format :: 'e exn + plot_format)
           \<and> getitem theta0 (df_column theta_format) = (Inr (barpolar_theta plot) :: 'e exn + 'v list)"
    unfolding create_polar_plot_def Let_def theta_apply_unchanged
    by (auto split: sum.splits)
qed

text \<open>
  The claim at a node with two samples of speed and direction, and at a frame of one
  column without rows.
\<close>

theorem theta_conversion_never_applied_witness:
  "\<not> df_empty [(''Current direction'', [1, 4 :: int])]
   \<and> theta_apply [(''Current direction'', [1, 4 :: int])] = (Inl (AttributeError ''degree'') :: string exn + int frame)
   \<and> df_empty [(''Current direction'', [] :: int list)]
   \<and> theta_apply [(''Current direction'', [] :: int list)] = (Inr [(''Current direction'', [])] :: string exn + int frame)
   \<and> create_polar_plot node_data 0 0 0 ''Current speed'' ''Current direction''
       = Inr \<lparr>barpolar_r = [2, 3], barpolar_theta = [1, 4], marker_color = [2, 3], colorbar_title = ''m/s''\<rparr>"
proof -
  have c: "create_polar_plot node_data 0 0 0 ''Current speed'' ''Current direction''
       = Inr \<lparr>barpolar_r = [2, 3], barpolar_theta = [1, 4], marker_color = [2, 3], colorbar_title = ''m/s''\<rparr>"
    by code_simp
  have n: "\<not> df_empty [(''Current direction'', [1, 4 :: int])]" by (simp add: df_empty_def)
  have z: "df_empty [(''Current direction'', [] :: int list)]" by (simp add: df_empty_def)
  from theta_conversion_never_applied [where theta = "[(''Current direction'', [1, 4 :: int])]" and 'e = string and 'v = int
      and get_node_data = node_data and long = 0 and lat = 0 and depth = 0
      and r_column = "''Current speed''" and theta_column = "''Current direction''"] n
  have a: "theta_apply [(''Current direction'', [1, 4 :: int])] = (Inl (AttributeError ''degree'') :: string exn + int frame)"
    by blast
  from theta_conversion_never_applied [where theta = "[(''Current direction'', [] :: int list)]" and 'e = string and 'v = int
      and get_node_data = node_data and long = 0 and lat = 0 and depth = 0
      and r_column = "''Current speed''" and theta_column = "''Current direction''"] z
  have b: "theta_apply [(''Current direction'', [] :: int list)] = (Inr [(''Current direction'', [])] :: string exn + int frame)"
    by blast
  from n a z b c show ?thesis by blast
qed

text \<open>
  Claim C10 as stated fails: on a frame without rows, and on a frame without columns, the
  attempted conversion does not raise.
\<close>

theorem empty_frame_conversion_counterexample:
  "theta_apply [(''Current direction'', [] :: int list)] = (Inr [(''Current direction'', [])] :: string exn + int frame)
   \<and> \<not> isl (theta_apply [(''Current direction'', [] :: int list)] :: string exn + int frame)
   \<and> theta_apply ([] :: int frame) = (Inr [] :: string exn + int frame)"
  by code_simp

end
